theory Spec2Isabelle
  imports Complex_Main "HOL-Library.Sublist"
begin

section \<open>The two-layer network of \<open>cs231n/classifiers/neural_net.py\<close>\<close>

text \<open>
  The file holds two functions: \<open>init_two_layer_model\<close>, which builds the parameter
  dictionary, and \<open>two_layer_net\<close>, which runs the forward pass and, when labels are given,
  the softmax loss and its gradients.

  Numbers are modelled as exact reals: \<open>real\<close> stands for numpy's float64, so rounding,
  overflow of \<open>exp\<close> and infinities are outside this development. The one place where the real
  operation is undefined, the division \<open>np.sum(correct_probs) / num_train\<close> of an empty batch,
  is kept visible: the loss is a \<open>real option\<close> and \<open>None\<close> stands for numpy's \<open>nan\<close>.

  The numpy functions the source calls are modelled with the shape checks and the broadcasting
  rules numpy applies, and every exception they raise is a value of \<open>error\<close>.
\<close>

subsection \<open>Arrays\<close>

text \<open>
  A one-dimensional array is a list. A two-dimensional array carries its shape, as numpy's
  \<open>shape\<close> attribute does, so that arrays with a zero dimension keep the other one.
\<close>

type_synonym vector = "real list"

record matrix =
  nrows :: nat
  ncols :: nat
  rows :: "real list list"

definition wf_matrix :: "matrix \<Rightarrow> bool" where
  "wf_matrix M \<longleftrightarrow>
     length (rows M) = nrows M \<and> list_all (\<lambda>r. length r = ncols M) (rows M)"

definition mk_matrix :: "nat \<Rightarrow> nat \<Rightarrow> (nat \<Rightarrow> nat \<Rightarrow> real) \<Rightarrow> matrix" where
  "mk_matrix r c f =
     \<lparr>nrows = r, ncols = c, rows = map (\<lambda>i. map (\<lambda>j. f i j) [0..<c]) [0..<r]\<rparr>"

definition entry :: "matrix \<Rightarrow> nat \<Rightarrow> nat \<Rightarrow> real" where
  "entry M i j = rows M ! i ! j"

datatype error = KeyError | ValueError | IndexError | Unmodelled

definition bindE :: "error + 'a \<Rightarrow> ('a \<Rightarrow> error + 'b) \<Rightarrow> error + 'b" where
  "bindE m f = (case m of Inl e \<Rightarrow> Inl e | Inr v \<Rightarrow> f v)"

subsection \<open>The numpy operations the source uses\<close>

text \<open>\<open>np.dot(A, B)\<close> of two-dimensional arrays: the inner dimensions must agree.\<close>

definition np_dot :: "matrix \<Rightarrow> matrix \<Rightarrow> error + matrix" where
  "np_dot A B =
     (if ncols A \<noteq> nrows B then Inl ValueError
      else Inr (mk_matrix (nrows A) (ncols B)
                  (\<lambda>i j. \<Sum>k<ncols A. entry A i k * entry B k j)))"

text \<open>
  Broadcasting of one dimension against another: equal lengths, or one of them is 1 and is
  stretched to the other.
\<close>

definition bdim :: "nat \<Rightarrow> nat \<Rightarrow> nat option" where
  "bdim a b = (if a = b then Some a else if a = 1 then Some b else if b = 1 then Some a else None)"

definition bidx :: "nat \<Rightarrow> nat \<Rightarrow> nat" where
  "bidx d i = (if d = 1 then 0 else i)"

definition broadcast2 :: "(real \<Rightarrow> real \<Rightarrow> real) \<Rightarrow> matrix \<Rightarrow> matrix \<Rightarrow> error + matrix" where
  "broadcast2 f A B =
     (case (bdim (nrows A) (nrows B), bdim (ncols A) (ncols B)) of
        (Some r, Some c) \<Rightarrow>
          Inr (mk_matrix r c
                 (\<lambda>i j. f (entry A (bidx (nrows A) i) (bidx (ncols A) j))
                          (entry B (bidx (nrows B) i) (bidx (ncols B) j))))
      | _ \<Rightarrow> Inl ValueError)"

text \<open>A one-dimensional operand of shape \<open>(k,)\<close> broadcasts as the row \<open>(1, k)\<close>.\<close>

definition as_row :: "vector \<Rightarrow> matrix" where
  "as_row b = \<lparr>nrows = 1, ncols = length b, rows = [b]\<rparr>"

definition np_add_vec :: "matrix \<Rightarrow> vector \<Rightarrow> error + matrix" where
  "np_add_vec A b = broadcast2 (+) A (as_row b)"

text \<open>\<open>np.maximum(0, A)\<close>: the scalar broadcasts to every entry.\<close>

definition np_maximum0 :: "matrix \<Rightarrow> matrix" where
  "np_maximum0 A = mk_matrix (nrows A) (ncols A) (\<lambda>i j. max 0 (entry A i j))"

subsection \<open>The forward pass\<close>

text \<open>
  Lines 80 and 83 of the source:
  \<^verbatim>\<open>hidden_layer_scores = np.maximum(0, np.dot(X, W1) + b1)\<close> and
  \<^verbatim>\<open>scores = np.dot(hidden_layer_scores, W2) + b2\<close>.
\<close>

definition hidden_layer :: "matrix \<Rightarrow> matrix \<Rightarrow> vector \<Rightarrow> error + matrix" where
  "hidden_layer X W1 b1 =
     bindE (np_dot X W1) (\<lambda>xw.
     bindE (np_add_vec xw b1) (\<lambda>pre.
     Inr (np_maximum0 pre)))"

definition output_layer :: "matrix \<Rightarrow> matrix \<Rightarrow> vector \<Rightarrow> error + matrix" where
  "output_layer hidden W2 b2 =
     bindE (np_dot hidden W2) (\<lambda>hw. np_add_vec hw b2)"

subsection \<open>Softmax, loss and fancy indexing\<close>

definition np_exp :: "matrix \<Rightarrow> matrix" where
  "np_exp A = mk_matrix (nrows A) (ncols A) (\<lambda>i j. exp (entry A i j))"

text \<open>\<open>np.sum(A, axis=1, keepdims=True)\<close>: the row sums, as a column of shape \<open>(N, 1)\<close>.\<close>

definition np_sum_axis1_keepdims :: "matrix \<Rightarrow> matrix" where
  "np_sum_axis1_keepdims A = mk_matrix (nrows A) 1 (\<lambda>i j. \<Sum>k<ncols A. entry A i k)"

definition np_divide :: "matrix \<Rightarrow> matrix \<Rightarrow> error + matrix" where
  "np_divide A B = broadcast2 (/) A B"

text \<open>
  Integer-array indexing \<open>A[rs, cs]\<close>. The two index arrays broadcast against each other
  (an \<open>IndexError\<close> when they cannot); every index pair is then checked against the shape of
  \<open>A\<close>, where an index \<open>i\<close> with \<open>-d \<le> i < 0\<close> counts from the end of an axis of size \<open>d\<close>
  and any index outside \<open>-d \<le> i < d\<close> raises \<open>IndexError\<close>.
\<close>

text \<open>
  numpy first casts an integer index array to its index type, the signed 64-bit \<open>intp\<close>: a
  value of an unsigned 64-bit array that is \<open>2\<^sup>6\<^sup>3\<close> or more wraps to a negative one. The
  functions below take index arrays after this cast, with every index in the range of \<open>intp\<close>.
\<close>

definition as_intp :: "int \<Rightarrow> int" where
  "as_intp l = (if 2 ^ 63 \<le> l then l - 2 ^ 64 else l)"

definition py_range :: "nat \<Rightarrow> int list" where
  "py_range n = map int [0..<n]"

definition in_bounds :: "nat \<Rightarrow> int \<Rightarrow> bool" where
  "in_bounds d i \<longleftrightarrow> - int d \<le> i \<and> i < int d"

definition norm_index :: "nat \<Rightarrow> int \<Rightarrow> nat" where
  "norm_index d i = nat (if i < 0 then i + int d else i)"

definition fancy_pairs :: "matrix \<Rightarrow> int list \<Rightarrow> int list \<Rightarrow> error + (nat \<times> nat) list" where
  "fancy_pairs A rs cs =
     (case bdim (length rs) (length cs) of
        None \<Rightarrow> Inl IndexError
      | Some r \<Rightarrow>
          (let ps = map (\<lambda>t. (rs ! bidx (length rs) t, cs ! bidx (length cs) t)) [0..<r]
           in if list_all (\<lambda>(i, j). in_bounds (nrows A) i \<and> in_bounds (ncols A) j) ps
              then Inr (map (\<lambda>(i, j). (norm_index (nrows A) i, norm_index (ncols A) j)) ps)
              else Inl IndexError))"

definition fancy_get :: "matrix \<Rightarrow> int list \<Rightarrow> int list \<Rightarrow> error + vector" where
  "fancy_get A rs cs =
     bindE (fancy_pairs A rs cs) (\<lambda>ps. Inr (map (\<lambda>(i, j). entry A i j) ps))"

definition set_entry :: "matrix \<Rightarrow> nat \<Rightarrow> nat \<Rightarrow> real \<Rightarrow> matrix" where
  "set_entry A i j v = A\<lparr>rows := (rows A)[i := (rows A ! i)[j := v]]\<rparr>"

text \<open>
  \<open>A[rs, cs] -= v\<close> is \<open>A[rs, cs] = A[rs, cs] - v\<close>: the selected entries are read first,
  then the differences are written back one index pair after the other.
\<close>

definition fancy_isub :: "matrix \<Rightarrow> int list \<Rightarrow> int list \<Rightarrow> real \<Rightarrow> error + matrix" where
  "fancy_isub A rs cs v =
     bindE (fancy_pairs A rs cs) (\<lambda>ps.
     Inr (fold (\<lambda>(i, j) B. set_entry B i j (entry A i j - v)) ps A))"

definition np_neg_log :: "vector \<Rightarrow> vector" where
  "np_neg_log ps = map (\<lambda>p. - ln p) ps"

text \<open>
  \<open>np.sum(v) / n\<close> for an integer \<open>n\<close>: with \<open>n = 0\<close> numpy warns and returns \<open>nan\<close> (or an
  infinity), which is no real number.
\<close>

definition np_sum_div :: "vector \<Rightarrow> nat \<Rightarrow> real option" where
  "np_sum_div v n = (if n = 0 then None else Some (sum_list v / real n))"

definition np_mul_self :: "matrix \<Rightarrow> matrix" where
  "np_mul_self A = mk_matrix (nrows A) (ncols A) (\<lambda>i j. entry A i j * entry A i j)"

definition np_sum_all :: "matrix \<Rightarrow> real" where
  "np_sum_all A = (\<Sum>i<nrows A. \<Sum>j<ncols A. entry A i j)"

subsection \<open>The operations of the backward pass\<close>

definition np_idiv_scalar :: "matrix \<Rightarrow> nat \<Rightarrow> matrix" where
  "np_idiv_scalar A n = mk_matrix (nrows A) (ncols A) (\<lambda>i j. entry A i j / real n)"

definition np_transpose :: "matrix \<Rightarrow> matrix" where
  "np_transpose A = mk_matrix (ncols A) (nrows A) (\<lambda>i j. entry A j i)"

definition np_sum_axis0 :: "matrix \<Rightarrow> vector" where
  "np_sum_axis0 A = map (\<lambda>j. \<Sum>i<nrows A. entry A i j) [0..<ncols A]"

text \<open>
  \<open>A[M <= 0] = 0\<close>: the boolean mask must have the shape of \<open>A\<close>, otherwise numpy raises
  \<open>IndexError\<close>.
\<close>

definition mask_nonpos_assign0 :: "matrix \<Rightarrow> matrix \<Rightarrow> error + matrix" where
  "mask_nonpos_assign0 A M =
     (if nrows M \<noteq> nrows A \<or> ncols M \<noteq> ncols A then Inl IndexError
      else Inr (mk_matrix (nrows A) (ncols A)
                  (\<lambda>i j. if entry M i j \<le> 0 then 0 else entry A i j)))"

definition np_scale :: "real \<Rightarrow> matrix \<Rightarrow> matrix" where
  "np_scale c A = mk_matrix (nrows A) (ncols A) (\<lambda>i j. c * entry A i j)"

text \<open>
  \<open>A += B\<close> writes into \<open>A\<close>: \<open>B\<close> must broadcast to the shape of \<open>A\<close>, which it may not enlarge.
\<close>

definition np_iadd :: "matrix \<Rightarrow> matrix \<Rightarrow> error + matrix" where
  "np_iadd A B =
     (if (nrows B = nrows A \<or> nrows B = 1) \<and> (ncols B = ncols A \<or> ncols B = 1)
      then Inr (mk_matrix (nrows A) (ncols A)
                  (\<lambda>i j. entry A i j + entry B (bidx (nrows B) i) (bidx (ncols B) j)))
      else Inl ValueError)"

subsection \<open>\<open>two_layer_net\<close>\<close>

text \<open>
  The values of the parameter and gradient dictionaries are arrays of either rank. The source
  documents \<open>W1\<close>, \<open>W2\<close> as two-dimensional and \<open>b1\<close>, \<open>b2\<close> as one-dimensional; a dictionary
  that holds an array of another rank under one of these keys is outside this development, and
  the model answers \<open>Unmodelled\<close> (which is no Python exception) for it.
\<close>

datatype ndarray = Vec vector | Mat matrix

type_synonym pydict = "string \<rightharpoonup> ndarray"

datatype result = Scores matrix | LossGrads "real option" pydict

definition lookup :: "pydict \<Rightarrow> string \<Rightarrow> error + ndarray" where
  "lookup d k = (case d k of None \<Rightarrow> Inl KeyError | Some v \<Rightarrow> Inr v)"

text \<open>Lines 93 to 102: the loss.\<close>

definition softmax_probs :: "matrix \<Rightarrow> error + matrix" where
  "softmax_probs scores =
     (let cross_entropy_loss = np_exp scores
      in np_divide cross_entropy_loss (np_sum_axis1_keepdims cross_entropy_loss))"

definition data_loss :: "matrix \<Rightarrow> nat \<Rightarrow> int list \<Rightarrow> error + real option" where
  "data_loss class_probs num_train y =
     bindE (fancy_get class_probs (py_range num_train) y) (\<lambda>picked.
     Inr (np_sum_div (np_neg_log picked) num_train))"

definition add_reg :: "real option \<Rightarrow> real \<Rightarrow> matrix \<Rightarrow> real option" where
  "add_reg loss reg W = map_option (\<lambda>l. l + 0.5 * reg * np_sum_all (np_mul_self W)) loss"

text \<open>Lines 108 to 110: \<open>dscores\<close> is \<open>class_probs\<close>, updated in place.\<close>

definition dscores_of :: "matrix \<Rightarrow> nat \<Rightarrow> int list \<Rightarrow> error + matrix" where
  "dscores_of class_probs num_train y =
     bindE (fancy_isub class_probs (py_range num_train) y 1) (\<lambda>d.
     Inr (np_idiv_scalar d num_train))"

text \<open>Lines 113 to 133: the gradients, collected in a new dictionary.\<close>

definition backward ::
  "matrix \<Rightarrow> matrix \<Rightarrow> matrix \<Rightarrow> matrix \<Rightarrow> matrix \<Rightarrow> real \<Rightarrow> error + pydict" where
  "backward X W1 W2 hidden_layer_scores dscores reg =
     bindE (np_dot (np_transpose hidden_layer_scores) dscores) (\<lambda>dW2.
     let db2 = np_sum_axis0 dscores in
     bindE (np_dot dscores (np_transpose W2)) (\<lambda>dHidden0.
     bindE (mask_nonpos_assign0 dHidden0 hidden_layer_scores) (\<lambda>dHidden.
     bindE (np_dot (np_transpose X) dHidden) (\<lambda>dW1.
     let db1 = np_sum_axis0 dHidden in
     bindE (np_iadd dW2 (np_scale reg W2)) (\<lambda>dW2'.
     bindE (np_iadd dW1 (np_scale reg W1)) (\<lambda>dW1'.
     Inr (Map.empty(''W1'' \<mapsto> Mat dW1', ''b1'' \<mapsto> Vec db1,
                    ''W2'' \<mapsto> Mat dW2', ''b2'' \<mapsto> Vec db2))))))))"

definition two_layer_net_arrays ::
  "matrix \<Rightarrow> matrix \<Rightarrow> vector \<Rightarrow> matrix \<Rightarrow> vector \<Rightarrow> int list option \<Rightarrow> real
     \<Rightarrow> error + result" where
  "two_layer_net_arrays X W1 b1 W2 b2 y reg =
     bindE (hidden_layer X W1 b1) (\<lambda>hidden_layer_scores.
     bindE (output_layer hidden_layer_scores W2 b2) (\<lambda>scores.
     case y of
       None \<Rightarrow> Inr (Scores scores)
     | Some y \<Rightarrow>
         bindE (softmax_probs scores) (\<lambda>class_probs.
         let num_train = nrows X in
         bindE (data_loss class_probs num_train y) (\<lambda>loss0.
         let loss = add_reg (add_reg loss0 reg W1) reg W2 in
         bindE (dscores_of class_probs num_train y) (\<lambda>dscores.
         bindE (backward X W1 W2 hidden_layer_scores dscores reg) (\<lambda>grads.
         Inr (LossGrads loss grads)))))))"

definition two_layer_net :: "matrix \<Rightarrow> pydict \<Rightarrow> int list option \<Rightarrow> real \<Rightarrow> error + result" where
  "two_layer_net X model y reg =
     bindE (lookup model ''W1'') (\<lambda>w1.
     bindE (lookup model ''b1'') (\<lambda>v1.
     bindE (lookup model ''W2'') (\<lambda>w2.
     bindE (lookup model ''b2'') (\<lambda>v2.
     case (w1, v1, w2, v2) of
       (Mat W1, Vec b1, Mat W2, Vec b2) \<Rightarrow> two_layer_net_arrays X W1 b1 W2 b2 y reg
     | _ \<Rightarrow> Inl Unmodelled))))"

subsection \<open>\<open>init_two_layer_model\<close>\<close>

text \<open>
  The ambient random generator of numpy is state the function consumes: it is modelled as the
  sequence of standard normal draws the generator is going to produce, and every call of
  \<open>np.random.randn\<close> takes as many draws from its front as the array has entries, filling
  the array row by row. Both \<open>np.random.randn\<close> and \<open>np.zeros\<close> raise \<open>ValueError\<close> on a
  negative dimension. The literal \<open>0.00001\<close> is the real number \<open>1 / 100000\<close>.
\<close>

type_synonym rng = "nat \<Rightarrow> real"

definition np_random_randn :: "int \<Rightarrow> int \<Rightarrow> rng \<Rightarrow> error + (matrix \<times> rng)" where
  "np_random_randn d0 d1 g =
     (if d0 < 0 \<or> d1 < 0 then Inl ValueError
      else Inr (mk_matrix (nat d0) (nat d1) (\<lambda>i j. g (i * nat d1 + j)),
                (\<lambda>k. g (k + nat d0 * nat d1))))"

definition np_zeros :: "int \<Rightarrow> error + vector" where
  "np_zeros n = (if n < 0 then Inl ValueError else Inr (replicate (nat n) 0))"

definition init_two_layer_model :: "int \<Rightarrow> int \<Rightarrow> int \<Rightarrow> rng \<Rightarrow> error + (pydict \<times> rng)" where
  "init_two_layer_model input_size hidden_size output_size g =
     (let model = Map.empty in
      bindE (np_random_randn input_size hidden_size g) (\<lambda>(r1, g1).
      let model = model(''W1'' \<mapsto> Mat (np_scale 0.00001 r1)) in
      bindE (np_zeros hidden_size) (\<lambda>z1.
      let model = model(''b1'' \<mapsto> Vec z1) in
      bindE (np_random_randn hidden_size output_size g1) (\<lambda>(r2, g2).
      let model = model(''W2'' \<mapsto> Mat (np_scale 0.00001 r2)) in
      bindE (np_zeros output_size) (\<lambda>z2.
      let model = model(''b2'' \<mapsto> Vec z2) in
      Inr (model, g2))))))"

section \<open>\<open>two_layer_net\<close> on a store\<close>

text \<open>
  The functions above compute with array values. To see which arrays a call creates and which
  it writes to, the same statements are modelled once more on a store: arrays and dictionaries
  are objects at addresses, a numpy operation that returns an array allocates a new object, an
  in-place operation (\<open>-=\<close>, \<open>/=\<close>, \<open>+=\<close>, assignment through an index) overwrites the object
  at an address, and \<open>dscores = class_probs\<close> binds a second name to the same address. The
  array operations themselves are the functions of the first part.

  An exception leaves the store as it is at the raise, so a program returns its store in
  either case. Python has no dangling references: reading an address that holds no object, or
  an array of another rank than the source documents, answers \<open>Unmodelled\<close>. A transposed
  view (\<open>.T\<close>) is an object of its own that the source only reads; it is modelled as a new
  array. The boolean mask \<open>hidden_layer_scores <= 0\<close> is not given an address. The labels \<open>y\<close>
  and \<open>reg\<close> are passed as values.
\<close>

type_synonym refdict = "string \<rightharpoonup> nat"

record store =
  arrays :: "ndarray list"
  dicts :: "refdict list"

type_synonym 'a prog = "store \<Rightarrow> (error + 'a) \<times> store"

definition returnS :: "'a \<Rightarrow> 'a prog" where
  "returnS v = (\<lambda>h. (Inr v, h))"

definition liftE :: "error + 'a \<Rightarrow> 'a prog" where
  "liftE r = (\<lambda>h. (r, h))"

definition bindS :: "'a prog \<Rightarrow> ('a \<Rightarrow> 'b prog) \<Rightarrow> 'b prog" where
  "bindS m f = (\<lambda>h. case m h of (Inl e, h') \<Rightarrow> (Inl e, h') | (Inr v, h') \<Rightarrow> f v h')"

definition get_mat :: "nat \<Rightarrow> matrix prog" where
  "get_mat a =
     (\<lambda>h. if a < length (arrays h)
          then (case arrays h ! a of Mat M \<Rightarrow> (Inr M, h) | Vec v \<Rightarrow> (Inl Unmodelled, h))
          else (Inl Unmodelled, h))"

definition get_vec :: "nat \<Rightarrow> vector prog" where
  "get_vec a =
     (\<lambda>h. if a < length (arrays h)
          then (case arrays h ! a of Vec v \<Rightarrow> (Inr v, h) | Mat M \<Rightarrow> (Inl Unmodelled, h))
          else (Inl Unmodelled, h))"

definition new_arr :: "ndarray \<Rightarrow> nat prog" where
  "new_arr v = (\<lambda>h. (Inr (length (arrays h)), h\<lparr>arrays := arrays h @ [v]\<rparr>))"

definition put_arr :: "nat \<Rightarrow> ndarray \<Rightarrow> unit prog" where
  "put_arr a v = (\<lambda>h. (Inr (), h\<lparr>arrays := (arrays h)[a := v]\<rparr>))"

definition new_dict :: "nat prog" where
  "new_dict = (\<lambda>h. (Inr (length (dicts h)), h\<lparr>dicts := dicts h @ [Map.empty]\<rparr>))"

definition dict_get :: "nat \<Rightarrow> string \<Rightarrow> nat prog" where
  "dict_get d k =
     (\<lambda>h. if d < length (dicts h)
          then (case (dicts h ! d) k of None \<Rightarrow> (Inl KeyError, h) | Some a \<Rightarrow> (Inr a, h))
          else (Inl Unmodelled, h))"

definition dict_set :: "nat \<Rightarrow> string \<Rightarrow> nat \<Rightarrow> unit prog" where
  "dict_set d k a =
     (\<lambda>h. if d < length (dicts h)
          then (Inr (), h\<lparr>dicts := (dicts h)[d := (dicts h ! d)(k \<mapsto> a)]\<rparr>)
          else (Inl Unmodelled, h))"

text \<open>
  The shapes of numpy calls: an operation on one or two arrays whose result is a new array,
  and an operation that writes its result over its first operand.
\<close>

definition mat_op1 :: "(matrix \<Rightarrow> error + matrix) \<Rightarrow> nat \<Rightarrow> nat prog" where
  "mat_op1 f a =
     bindS (get_mat a) (\<lambda>A. bindS (liftE (f A)) (\<lambda>C. new_arr (Mat C)))"

definition mat_op2 :: "(matrix \<Rightarrow> matrix \<Rightarrow> error + matrix) \<Rightarrow> nat \<Rightarrow> nat \<Rightarrow> nat prog" where
  "mat_op2 f a b =
     bindS (get_mat a) (\<lambda>A. bindS (get_mat b) (\<lambda>B.
     bindS (liftE (f A B)) (\<lambda>C. new_arr (Mat C))))"

definition mat_vec_op :: "(matrix \<Rightarrow> vector \<Rightarrow> error + matrix) \<Rightarrow> nat \<Rightarrow> nat \<Rightarrow> nat prog" where
  "mat_vec_op f a b =
     bindS (get_mat a) (\<lambda>A. bindS (get_vec b) (\<lambda>v.
     bindS (liftE (f A v)) (\<lambda>C. new_arr (Mat C))))"

definition mat_to_vec :: "(matrix \<Rightarrow> error + vector) \<Rightarrow> nat \<Rightarrow> nat prog" where
  "mat_to_vec f a =
     bindS (get_mat a) (\<lambda>A. bindS (liftE (f A)) (\<lambda>v. new_arr (Vec v)))"

definition vec_op1 :: "(vector \<Rightarrow> vector) \<Rightarrow> nat \<Rightarrow> nat prog" where
  "vec_op1 f a = bindS (get_vec a) (\<lambda>v. new_arr (Vec (f v)))"

definition mat_upd1 :: "(matrix \<Rightarrow> error + matrix) \<Rightarrow> nat \<Rightarrow> unit prog" where
  "mat_upd1 f a =
     bindS (get_mat a) (\<lambda>A. bindS (liftE (f A)) (\<lambda>C. put_arr a (Mat C)))"

definition mat_upd2 :: "(matrix \<Rightarrow> matrix \<Rightarrow> error + matrix) \<Rightarrow> nat \<Rightarrow> nat \<Rightarrow> unit prog" where
  "mat_upd2 f a b =
     bindS (get_mat a) (\<lambda>A. bindS (get_mat b) (\<lambda>B.
     bindS (liftE (f A B)) (\<lambda>C. put_arr a (Mat C))))"

text \<open>Lines 80 and 83: the forward pass. It returns the addresses of both layers' outputs.\<close>

definition forward_s :: "nat \<Rightarrow> nat \<Rightarrow> nat \<Rightarrow> nat \<Rightarrow> nat \<Rightarrow> (nat \<times> nat) prog" where
  "forward_s X W1 b1 W2 b2 =
     bindS (mat_op2 np_dot X W1) (\<lambda>xw.
     bindS (mat_vec_op np_add_vec xw b1) (\<lambda>pre.
     bindS (mat_op1 (\<lambda>A. Inr (np_maximum0 A)) pre) (\<lambda>hidden_layer_scores.
     bindS (mat_op2 np_dot hidden_layer_scores W2) (\<lambda>hw.
     bindS (mat_vec_op np_add_vec hw b2) (\<lambda>scores.
     returnS (hidden_layer_scores, scores))))))"

text \<open>
  Lines 93 to 102: the class probabilities and the loss. The loss is a number, not an object;
  the address of \<open>class_probs\<close> and \<open>num_train\<close> are returned with it.
\<close>

definition reg_term_s :: "real option \<Rightarrow> real \<Rightarrow> nat \<Rightarrow> real option prog" where
  "reg_term_s loss reg W =
     bindS (mat_op1 (\<lambda>A. Inr (np_mul_self A)) W) (\<lambda>sq.
     bindS (get_mat sq) (\<lambda>S.
     returnS (map_option (\<lambda>l. l + 0.5 * reg * np_sum_all S) loss)))"

definition loss_s ::
  "nat \<Rightarrow> nat \<Rightarrow> nat \<Rightarrow> nat \<Rightarrow> int list \<Rightarrow> real \<Rightarrow> (real option \<times> nat \<times> nat) prog" where
  "loss_s X W1 W2 scores y reg =
     bindS (mat_op1 (\<lambda>A. Inr (np_exp A)) scores) (\<lambda>cross_entropy_loss.
     bindS (mat_op1 (\<lambda>A. Inr (np_sum_axis1_keepdims A)) cross_entropy_loss) (\<lambda>row_sums.
     bindS (mat_op2 np_divide cross_entropy_loss row_sums) (\<lambda>class_probs.
     bindS (get_mat X) (\<lambda>Xv.
     let num_train = nrows Xv in
     bindS (mat_to_vec (\<lambda>P. fancy_get P (py_range num_train) y) class_probs) (\<lambda>picked.
     bindS (vec_op1 np_neg_log picked) (\<lambda>correct_probs.
     bindS (get_vec correct_probs) (\<lambda>cp.
     let loss = np_sum_div cp num_train in
     bindS (reg_term_s loss reg W1) (\<lambda>loss.
     bindS (reg_term_s loss reg W2) (\<lambda>loss.
     returnS (loss, class_probs, num_train))))))))))"

text \<open>
  Lines 108 to 128. \<open>dscores\<close> is the address of \<open>class_probs\<close>: lines 109 and 110 overwrite
  that object. Lines 120, 127 and 128 overwrite \<open>dHidden\<close>, \<open>dW2\<close> and \<open>dW1\<close>.
\<close>

definition grads_s ::
  "nat \<Rightarrow> nat \<Rightarrow> nat \<Rightarrow> nat \<Rightarrow> nat \<Rightarrow> nat \<Rightarrow> int list \<Rightarrow> real
     \<Rightarrow> (nat \<times> nat \<times> nat \<times> nat) prog" where
  "grads_s X W1 W2 hidden_layer_scores class_probs num_train y reg =
     (let dscores = class_probs in
      bindS (mat_upd1 (\<lambda>A. fancy_isub A (py_range num_train) y 1) dscores) (\<lambda>_.
      bindS (mat_upd1 (\<lambda>A. Inr (np_idiv_scalar A num_train)) dscores) (\<lambda>_.
      bindS (mat_op1 (\<lambda>A. Inr (np_transpose A)) hidden_layer_scores) (\<lambda>hT.
      bindS (mat_op2 np_dot hT dscores) (\<lambda>dW2.
      bindS (mat_to_vec (\<lambda>A. Inr (np_sum_axis0 A)) dscores) (\<lambda>db2.
      bindS (mat_op1 (\<lambda>A. Inr (np_transpose A)) W2) (\<lambda>w2T.
      bindS (mat_op2 np_dot dscores w2T) (\<lambda>dHidden.
      bindS (mat_upd2 mask_nonpos_assign0 dHidden hidden_layer_scores) (\<lambda>_.
      bindS (mat_op1 (\<lambda>A. Inr (np_transpose A)) X) (\<lambda>xT.
      bindS (mat_op2 np_dot xT dHidden) (\<lambda>dW1.
      bindS (mat_to_vec (\<lambda>A. Inr (np_sum_axis0 A)) dHidden) (\<lambda>db1.
      bindS (mat_op1 (\<lambda>A. Inr (np_scale reg A)) W2) (\<lambda>rW2.
      bindS (mat_upd2 np_iadd dW2 rW2) (\<lambda>_.
      bindS (mat_op1 (\<lambda>A. Inr (np_scale reg A)) W1) (\<lambda>rW1.
      bindS (mat_upd2 np_iadd dW1 rW1) (\<lambda>_.
      returnS (dW1, db1, dW2, db2)))))))))))))))))"

datatype ref_result = ScoresRef nat | LossGradsRef "real option" nat

text \<open>Line 73: the four references are read out of the parameter dictionary.\<close>

definition unpack_s :: "nat \<Rightarrow> (nat \<times> nat \<times> nat \<times> nat) prog" where
  "unpack_s model =
     bindS (dict_get model ''W1'') (\<lambda>W1.
     bindS (dict_get model ''b1'') (\<lambda>b1.
     bindS (dict_get model ''W2'') (\<lambda>W2.
     bindS (dict_get model ''b2'') (\<lambda>b2.
     returnS (W1, b1, W2, b2)))))"

text \<open>Lines 130 to 135: the gradient dictionary is filled and returned with the loss.\<close>

definition fill_grads_s ::
  "nat \<Rightarrow> real option \<Rightarrow> nat \<Rightarrow> nat \<Rightarrow> nat \<Rightarrow> nat \<Rightarrow> ref_result prog" where
  "fill_grads_s grads loss dW1 db1 dW2 db2 =
     bindS (dict_set grads ''W1'' dW1) (\<lambda>_.
     bindS (dict_set grads ''b1'' db1) (\<lambda>_.
     bindS (dict_set grads ''W2'' dW2) (\<lambda>_.
     bindS (dict_set grads ''b2'' db2) (\<lambda>_.
     returnS (LossGradsRef loss grads)))))"

text \<open>Lines 89 to 135: training mode. Line 105 creates the gradient dictionary.\<close>

definition train_s ::
  "nat \<Rightarrow> nat \<Rightarrow> nat \<Rightarrow> nat \<Rightarrow> nat \<Rightarrow> int list \<Rightarrow> real \<Rightarrow> ref_result prog" where
  "train_s X W1 W2 hidden_layer_scores scores y reg =
     bindS (loss_s X W1 W2 scores y reg) (\<lambda>(loss, class_probs, num_train).
     bindS new_dict (\<lambda>grads.
     bindS (grads_s X W1 W2 hidden_layer_scores class_probs num_train y reg)
       (\<lambda>(dW1, db1, dW2, db2).
     fill_grads_s grads loss dW1 db1 dW2 db2)))"

text \<open>The whole function; line 74 reads the shape of \<open>X\<close>.\<close>

definition two_layer_net_s :: "nat \<Rightarrow> nat \<Rightarrow> int list option \<Rightarrow> real \<Rightarrow> ref_result prog" where
  "two_layer_net_s X model y reg =
     bindS (unpack_s model) (\<lambda>(W1, b1, W2, b2).
     bindS (get_mat X) (\<lambda>_.
     bindS (forward_s X W1 b1 W2 b2) (\<lambda>(hidden_layer_scores, scores).
     case y of
       None \<Rightarrow> returnS (ScoresRef scores)
     | Some y \<Rightarrow> train_s X W1 W2 hidden_layer_scores scores y reg)))"

section \<open>The specification's side\<close>

text \<open>
  The definitions of this section follow the words of the specification, not the source: the
  hypotheses under which it speaks (consistent shapes, valid labels) and the closed formulas
  it gives for the values the code computes. The theorems compare them with the model above.
\<close>

text \<open>
  Consistent shapes: \<open>X\<close> is \<open>(N, D)\<close>, \<open>W1\<close> is \<open>(D, H)\<close>, \<open>b1\<close> is \<open>(H,)\<close>, \<open>W2\<close> is
  \<open>(H, C)\<close> and \<open>b2\<close> is \<open>(C,)\<close>. Well-formedness of the two-dimensional arrays (as many rows
  as the shape says, each of the width it says) is part of it: every numpy array has it.
\<close>

definition consistent :: "matrix \<Rightarrow> matrix \<Rightarrow> vector \<Rightarrow> matrix \<Rightarrow> vector \<Rightarrow> bool" where
  "consistent X W1 b1 W2 b2 \<longleftrightarrow>
     wf_matrix X \<and> wf_matrix W1 \<and> wf_matrix W2 \<and>
     nrows W1 = ncols X \<and> length b1 = ncols W1 \<and>
     nrows W2 = ncols W1 \<and> length b2 = ncols W2"

text \<open>The parameter dictionary holds the four arrays under their keys.\<close>

definition params :: "pydict \<Rightarrow> matrix \<Rightarrow> vector \<Rightarrow> matrix \<Rightarrow> vector \<Rightarrow> bool" where
  "params model W1 b1 W2 b2 \<longleftrightarrow>
     model ''W1'' = Some (Mat W1) \<and> model ''b1'' = Some (Vec b1) \<and>
     model ''W2'' = Some (Mat W2) \<and> model ''b2'' = Some (Vec b2)"

text \<open>Valid labels: one label for each of the \<open>N\<close> samples, each in \<open>[0, C)\<close>.\<close>

definition valid_labels :: "nat \<Rightarrow> nat \<Rightarrow> int list \<Rightarrow> bool" where
  "valid_labels N C y \<longleftrightarrow> length y = N \<and> list_all (\<lambda>l. 0 \<le> l \<and> l < int C) y"

text \<open>
  A label array as numpy holds it: of a signed integer type, every label in the range of a
  signed 64-bit integer, or of an unsigned one, every label below \<open>2\<^sup>6\<^sup>4\<close>.
\<close>

definition label_array :: "int list \<Rightarrow> bool" where
  "label_array y \<longleftrightarrow>
     list_all (\<lambda>l. - (2 ^ 63) \<le> l \<and> l < 2 ^ 63) y \<or> list_all (\<lambda>l. 0 \<le> l \<and> l < 2 ^ 64) y"

text \<open>The forward pass, entry by entry.\<close>

definition spec_pre :: "matrix \<Rightarrow> matrix \<Rightarrow> vector \<Rightarrow> nat \<Rightarrow> nat \<Rightarrow> real" where
  "spec_pre X W1 b1 i h = (\<Sum>d<ncols X. entry X i d * entry W1 d h) + b1 ! h"

definition spec_hidden :: "matrix \<Rightarrow> matrix \<Rightarrow> vector \<Rightarrow> nat \<Rightarrow> nat \<Rightarrow> real" where
  "spec_hidden X W1 b1 i h = max 0 (spec_pre X W1 b1 i h)"

definition spec_scores ::
  "matrix \<Rightarrow> matrix \<Rightarrow> vector \<Rightarrow> matrix \<Rightarrow> vector \<Rightarrow> nat \<Rightarrow> nat \<Rightarrow> real" where
  "spec_scores X W1 b1 W2 b2 i c =
     (\<Sum>h<ncols W1. spec_hidden X W1 b1 i h * entry W2 h c) + b2 ! c"

text \<open>The naive softmax of a score table \<open>s\<close> with \<open>C\<close> columns.\<close>

definition spec_probs :: "nat \<Rightarrow> (nat \<Rightarrow> nat \<Rightarrow> real) \<Rightarrow> nat \<Rightarrow> nat \<Rightarrow> real" where
  "spec_probs C s i c = exp (s i c) / (\<Sum>k<C. exp (s i k))"

text \<open>
  The mean cross-entropy and the gradient with respect to the scores. The label of row \<open>i\<close> is
  read through \<open>norm_index\<close>, which is the identity on labels in \<open>[0, C)\<close>.
\<close>

definition spec_data_loss :: "nat \<Rightarrow> nat \<Rightarrow> (nat \<Rightarrow> nat \<Rightarrow> real) \<Rightarrow> int list \<Rightarrow> real" where
  "spec_data_loss N C P y = (\<Sum>i<N. - ln (P i (norm_index C (y ! i)))) / real N"

definition spec_sumsq :: "matrix \<Rightarrow> real" where
  "spec_sumsq W = (\<Sum>i<nrows W. \<Sum>j<ncols W. (entry W i j)\<^sup>2)"

definition spec_dscores ::
  "nat \<Rightarrow> nat \<Rightarrow> (nat \<Rightarrow> nat \<Rightarrow> real) \<Rightarrow> int list \<Rightarrow> nat \<Rightarrow> nat \<Rightarrow> real" where
  "spec_dscores N C P y i c =
     (P i c - (if c = norm_index C (y ! i) then 1 else 0)) / real N"

text \<open>
  The gradient with respect to the hidden activation: \<open>dScores \<cdot> W2\<^sup>T\<close>, zeroed where the
  activation \<open>hid\<close> is not positive.
\<close>

definition spec_dhidden ::
  "nat \<Rightarrow> matrix \<Rightarrow> (nat \<Rightarrow> nat \<Rightarrow> real) \<Rightarrow> (nat \<Rightarrow> nat \<Rightarrow> real) \<Rightarrow> nat \<Rightarrow> nat \<Rightarrow> real" where
  "spec_dhidden C W2 hid ds i h =
     (if hid i h \<le> 0 then 0 else \<Sum>c<C. ds i c * entry W2 h c)"

definition spec_grads ::
  "matrix \<Rightarrow> matrix \<Rightarrow> matrix \<Rightarrow> (nat \<Rightarrow> nat \<Rightarrow> real) \<Rightarrow> (nat \<Rightarrow> nat \<Rightarrow> real) \<Rightarrow> real \<Rightarrow> pydict" where
  "spec_grads X W1 W2 hid ds reg =
     Map.empty(
      ''W1'' \<mapsto> Mat (mk_matrix (ncols X) (ncols W1)
         (\<lambda>d h. (\<Sum>i<nrows X. entry X i d * spec_dhidden (ncols W2) W2 hid ds i h)
                  + reg * entry W1 d h)),
      ''b1'' \<mapsto> Vec (map (\<lambda>h. \<Sum>i<nrows X. spec_dhidden (ncols W2) W2 hid ds i h) [0..<ncols W1]),
      ''W2'' \<mapsto> Mat (mk_matrix (ncols W1) (ncols W2)
         (\<lambda>h c. (\<Sum>i<nrows X. hid i h * ds i c) + reg * entry W2 h c)),
      ''b2'' \<mapsto> Vec (map (\<lambda>c. \<Sum>i<nrows X. ds i c) [0..<ncols W2]))"

text \<open>The loss of a result, when there is one.\<close>

definition loss_of :: "error + result \<Rightarrow> real option" where
  "loss_of r = (case r of Inr (LossGrads l g) \<Rightarrow> l | _ \<Rightarrow> None)"

text \<open>What numpy makes of a label in \<open>[-C, 0)\<close>: it counts from the last class.\<close>

definition wrap_label :: "nat \<Rightarrow> int \<Rightarrow> int" where
  "wrap_label C l = (if l < 0 then l + int C else l)"

subsection \<open>What a call may do to the store\<close>

text \<open>
  The store \<open>h\<close> extends \<open>h0\<close> when every array and every dictionary of \<open>h0\<close> is still there,
  at its address and with its contents. A program respects \<open>h0\<close> (\<open>frame\<close>) when, started in
  any extension of \<open>h0\<close>, it ends in an extension of \<open>h0\<close>, whether it returns or raises, and
  what it returns satisfies \<open>P\<close>. An address is fresh for \<open>h0\<close> when no object of \<open>h0\<close> has it.
\<close>

definition ext :: "store \<Rightarrow> store \<Rightarrow> bool" where
  "ext h0 h \<longleftrightarrow> prefix (arrays h0) (arrays h) \<and> prefix (dicts h0) (dicts h)"

definition frame :: "store \<Rightarrow> 'a prog \<Rightarrow> ('a \<Rightarrow> bool) \<Rightarrow> bool" where
  "frame h0 m P \<longleftrightarrow>
     (\<forall>h. ext h0 h \<longrightarrow> ext h0 (snd (m h)) \<and> (\<forall>v. fst (m h) = Inr v \<longrightarrow> P v))"

definition fresh_arr :: "store \<Rightarrow> nat \<Rightarrow> bool" where
  "fresh_arr h0 a \<longleftrightarrow> length (arrays h0) \<le> a"

definition fresh_dict :: "store \<Rightarrow> nat \<Rightarrow> bool" where
  "fresh_dict h0 d \<longleftrightarrow> length (dicts h0) \<le> d"

definition fresh_result :: "store \<Rightarrow> ref_result \<Rightarrow> bool" where
  "fresh_result h0 r =
     (case r of ScoresRef s \<Rightarrow> fresh_arr h0 s | LossGradsRef loss g \<Rightarrow> fresh_dict h0 g)"

text \<open>A program that leaves every dictionary as it is.\<close>

definition keeps_dicts :: "'a prog \<Rightarrow> bool" where
  "keeps_dicts m \<longleftrightarrow> (\<forall>h. dicts (snd (m h)) = dicts h)"

subsection \<open>The store-level program and the functions on values\<close>

text \<open>
  An address holds a matrix or a vector; a dictionary of references stands for the dictionary
  of the arrays it refers to; and a returned reference denotes a result of the functions on
  values when the objects it leads to are that result. \<open>stored_inputs\<close> says that the store
  holds the arguments of a call: \<open>X\<close> at its address, and under the four keys of the parameter
  dictionary references to arrays of the documented ranks.
\<close>

definition holds_mat :: "store \<Rightarrow> nat \<Rightarrow> matrix \<Rightarrow> bool" where
  "holds_mat h a M \<longleftrightarrow> a < length (arrays h) \<and> arrays h ! a = Mat M"

definition holds_vec :: "store \<Rightarrow> nat \<Rightarrow> vector \<Rightarrow> bool" where
  "holds_vec h a v \<longleftrightarrow> a < length (arrays h) \<and> arrays h ! a = Vec v"

definition deref :: "store \<Rightarrow> refdict \<Rightarrow> pydict" where
  "deref h d = (\<lambda>k. map_option (\<lambda>a. arrays h ! a) (d k))"

definition denotes :: "store \<Rightarrow> ref_result \<Rightarrow> result \<Rightarrow> bool" where
  "denotes h r res =
     (case r of
        ScoresRef s \<Rightarrow> (\<exists>M. holds_mat h s M \<and> res = Scores M)
      | LossGradsRef loss g \<Rightarrow> g < length (dicts h) \<and> res = LossGrads loss (deref h (dicts h ! g)))"

definition stored_inputs ::
  "store \<Rightarrow> nat \<Rightarrow> nat \<Rightarrow> matrix \<Rightarrow> matrix \<Rightarrow> vector \<Rightarrow> matrix \<Rightarrow> vector \<Rightarrow> bool" where
  "stored_inputs h X model Xv W1 b1 W2 b2 \<longleftrightarrow>
     holds_mat h X Xv \<and> model < length (dicts h) \<and>
     (\<exists>w1 v1 w2 v2.
        (dicts h ! model) ''W1'' = Some w1 \<and> holds_mat h w1 W1 \<and>
        (dicts h ! model) ''b1'' = Some v1 \<and> holds_vec h v1 b1 \<and>
        (dicts h ! model) ''W2'' = Some w2 \<and> holds_mat h w2 W2 \<and>
        (dicts h ! model) ''b2'' = Some v2 \<and> holds_vec h v2 b2)"

subsection \<open>Example inputs\<close>

text \<open>
  A batch of two samples with two features, three hidden units and two classes; and a network
  with one feature, one hidden unit, two classes and all weights zero, on a batch of one.
\<close>

definition ex_X :: matrix where
  "ex_X = \<lparr>nrows = 2, ncols = 2, rows = [[1, 2], [0, -1]]\<rparr>"

definition ex_W1 :: matrix where
  "ex_W1 = \<lparr>nrows = 2, ncols = 3, rows = [[1, 0, -1], [2, 1, 0]]\<rparr>"

definition ex_b1 :: vector where
  "ex_b1 = [0, 1, 0]"

definition ex_W2 :: matrix where
  "ex_W2 = \<lparr>nrows = 3, ncols = 2, rows = [[1, 0], [0, 1], [1, 1]]\<rparr>"

definition ex_b2 :: vector where
  "ex_b2 = [0, 0]"

definition ex_model :: pydict where
  "ex_model = Map.empty(''W1'' \<mapsto> Mat ex_W1, ''b1'' \<mapsto> Vec ex_b1,
                        ''W2'' \<mapsto> Mat ex_W2, ''b2'' \<mapsto> Vec ex_b2)"

text \<open>An empty batch for the first example's parameters.\<close>

definition empty_X :: matrix where
  "empty_X = \<lparr>nrows = 0, ncols = 2, rows = []\<rparr>"

definition zero_X :: matrix where
  "zero_X = \<lparr>nrows = 1, ncols = 1, rows = [[1]]\<rparr>"

definition zero_W1 :: matrix where
  "zero_W1 = \<lparr>nrows = 1, ncols = 1, rows = [[0]]\<rparr>"

definition zero_W2 :: matrix where
  "zero_W2 = \<lparr>nrows = 1, ncols = 2, rows = [[0, 0]]\<rparr>"

definition zero_model :: pydict where
  "zero_model = Map.empty(''W1'' \<mapsto> Mat zero_W1, ''b1'' \<mapsto> Vec [0],
                          ''W2'' \<mapsto> Mat zero_W2, ''b2'' \<mapsto> Vec [0, 0])"

text \<open>
  A store that holds the first example: \<open>X\<close> at address 0, the parameters at 1 to 4 and the
  parameter dictionary at dictionary address 0.
\<close>

definition ex_store :: store where
  "ex_store =
     \<lparr>arrays = [Mat ex_X, Mat ex_W1, Vec ex_b1, Mat ex_W2, Vec ex_b2],
      dicts = [Map.empty(''W1'' \<mapsto> 1, ''b1'' \<mapsto> 2, ''W2'' \<mapsto> 3, ''b2'' \<mapsto> 4)]\<rparr>"

section \<open>Properties of the operations\<close>

lemma nrows_mk_matrix [simp]: "nrows (mk_matrix r c f) = r"
  and ncols_mk_matrix [simp]: "ncols (mk_matrix r c f) = c"
  by (simp_all add: mk_matrix_def)

lemma entry_mk_matrix [simp]: "i < r \<Longrightarrow> j < c \<Longrightarrow> entry (mk_matrix r c f) i j = f i j"
  by (simp add: mk_matrix_def entry_def)

lemma wf_mk_matrix [simp]: "wf_matrix (mk_matrix r c f)"
  by (simp add: wf_matrix_def mk_matrix_def list_all_iff)

lemma mk_matrix_cong:
  assumes "\<And>i j. i < r \<Longrightarrow> j < c \<Longrightarrow> f i j = g i j"
  shows "mk_matrix r c f = mk_matrix r c g"
  using assms by (simp add: mk_matrix_def)

lemma bindE_Inr [simp]: "bindE (Inr v) f = f v"
  and bindE_Inl [simp]: "bindE (Inl e) f = Inl e"
  by (simp_all add: bindE_def)

lemma entry_as_row [simp]: "entry (as_row b) 0 j = b ! j"
  by (simp add: as_row_def entry_def)

lemma shape_as_row [simp]: "nrows (as_row b) = 1" "ncols (as_row b) = length b"
  by (simp_all add: as_row_def)

lemma bidx_less [simp]: "i < d \<Longrightarrow> bidx d i = i"
  by (auto simp: bidx_def)

lemma np_add_vec_consistent:
  assumes "length b = ncols A"
  shows "np_add_vec A b = Inr (mk_matrix (nrows A) (ncols A) (\<lambda>i j. entry A i j + b ! j))"
proof -
  have "bdim (nrows A) 1 = Some (nrows A)" "bdim (ncols A) (ncols A) = Some (ncols A)"
    by (auto simp: bdim_def)
  then show ?thesis
    using assms
    by (auto simp: np_add_vec_def broadcast2_def bidx_def intro!: mk_matrix_cong)
qed

lemma hidden_layer_consistent:
  assumes "nrows W1 = ncols X" "length b1 = ncols W1"
  shows "hidden_layer X W1 b1 = Inr (mk_matrix (nrows X) (ncols W1) (spec_hidden X W1 b1))"
  using assms
  by (auto simp: hidden_layer_def np_dot_def np_add_vec_consistent np_maximum0_def
      spec_hidden_def spec_pre_def intro!: mk_matrix_cong)

lemma output_layer_consistent:
  assumes "nrows W2 = ncols W1" "length b2 = ncols W2"
  shows "output_layer (mk_matrix (nrows X) (ncols W1) (spec_hidden X W1 b1)) W2 b2 =
    Inr (mk_matrix (nrows X) (ncols W2) (spec_scores X W1 b1 W2 b2))"
  using assms
  by (auto simp: output_layer_def np_dot_def np_add_vec_consistent spec_scores_def
      intro!: mk_matrix_cong)

lemma softmax_probs_mk:
  "softmax_probs (mk_matrix N C s) = Inr (mk_matrix N C (spec_probs C s))"
proof -
  have "bdim N N = Some N" "bdim C 1 = Some C"
    by (auto simp: bdim_def)
  then show ?thesis
    by (auto simp: softmax_probs_def np_exp_def np_sum_axis1_keepdims_def np_divide_def
        broadcast2_def spec_probs_def bidx_def Let_def intro!: mk_matrix_cong)
qed

lemma fancy_pairs_range:
  assumes "length y = N" "nrows A = N"
  shows "fancy_pairs A (py_range N) y =
    (if list_all (in_bounds (ncols A)) y
     then Inr (map (\<lambda>t. (t, norm_index (ncols A) (y ! t))) [0..<N])
     else Inl IndexError)"
proof -
  have b: "bdim (length (py_range N)) (length y) = Some N"
    using assms by (simp add: bdim_def py_range_def)
  have ps: "map (\<lambda>t. (py_range N ! bidx (length (py_range N)) t, y ! bidx (length y) t)) [0..<N]
      = map (\<lambda>t. (int t, y ! t)) [0..<N]"
    using assms by (simp add: py_range_def)
  have chk: "list_all (\<lambda>(i, j). in_bounds (nrows A) i \<and> in_bounds (ncols A) j)
        (map (\<lambda>t. (int t, y ! t)) [0..<N]) \<longleftrightarrow> list_all (in_bounds (ncols A)) y"
    using assms by (auto simp: list_all_length in_bounds_def)
  show ?thesis
    unfolding fancy_pairs_def b ps Let_def option.case chk
    by (simp add: norm_index_def)
qed

lemma sum_list_map_upt: "sum_list (map f [0..<n]) = (\<Sum>t<n. f t)"
  by (simp add: interv_sum_list_conv_sum_set_nat atLeast0LessThan)

lemma data_loss_range:
  assumes "length y = N" "nrows A = N" "list_all (in_bounds (ncols A)) y"
  shows "data_loss A N y =
    Inr (if N = 0 then None
         else Some ((\<Sum>t<N. - ln (entry A t (norm_index (ncols A) (y ! t)))) / real N))"
  using assms
  by (simp add: data_loss_def fancy_get_def fancy_pairs_range np_sum_div_def np_neg_log_def
      comp_def sum_list_map_upt)

lemma data_loss_out_of_range:
  assumes "length y = N" "nrows A = N" "\<not> list_all (in_bounds (ncols A)) y"
  shows "data_loss A N y = Inl IndexError"
  using assms by (simp add: data_loss_def fancy_get_def fancy_pairs_range)

lemma shape_set_entry [simp]:
  "nrows (set_entry A i j v) = nrows A" "ncols (set_entry A i j v) = ncols A"
  by (simp_all add: set_entry_def)

lemma wf_set_entry: "wf_matrix A \<Longrightarrow> wf_matrix (set_entry A i j v)"
proof -
  assume wf: "wf_matrix A"
  have "length ((rows A)[i := (rows A ! i)[j := v]] ! n) = ncols A" if "n < nrows A" for n
  proof (cases "n = i")
    case True
    with that wf show ?thesis by (simp add: wf_matrix_def list_all_length)
  next
    case False
    with that wf show ?thesis by (simp add: wf_matrix_def list_all_length)
  qed
  with wf show ?thesis
    by (simp add: wf_matrix_def set_entry_def list_all_length)
qed

lemma entry_set_entry:
  assumes "wf_matrix A" "i < nrows A" "j < ncols A"
  shows "entry (set_entry A i j v) i' j' = (if i' = i \<and> j' = j then v else entry A i' j')"
  using assms
  by (auto simp: wf_matrix_def set_entry_def entry_def list_all_length nth_list_update)

lemma fold_rows_isub:
  fixes A :: matrix and v :: real and g :: "nat \<Rightarrow> nat" and n :: nat
  assumes "wf_matrix A" "n \<le> nrows A" "\<And>t. t < n \<Longrightarrow> g t < ncols A"
  defines "B \<equiv> fold (\<lambda>(i, j) B. set_entry B i j (entry A i j - v)) (map (\<lambda>t. (t, g t)) [0..<n]) A"
  shows "wf_matrix B \<and> nrows B = nrows A \<and> ncols B = ncols A \<and>
    (\<forall>i j. entry B i j = (if i < n \<and> j = g i then entry A i j - v else entry A i j))"
  using assms(2,3) unfolding B_def
proof (induction n)
  case 0
  then show ?case using assms(1) by simp
next
  case (Suc n)
  let ?B = "fold (\<lambda>(i, j) B. set_entry B i j (entry A i j - v)) (map (\<lambda>t. (t, g t)) [0..<n]) A"
  have IH: "wf_matrix ?B" "nrows ?B = nrows A" "ncols ?B = ncols A"
    "\<And>i j. entry ?B i j = (if i < n \<and> j = g i then entry A i j - v else entry A i j)"
    using Suc by auto
  have n: "n < nrows ?B" "g n < ncols ?B"
    using Suc.prems IH by auto
  show ?case
    using IH(1-3) entry_set_entry [OF IH(1) n] wf_set_entry [OF IH(1)]
    by (auto simp: IH(4) less_Suc_eq)
qed

lemma dscores_of_range:
  assumes "wf_matrix A" "length y = N" "nrows A = N" "list_all (in_bounds (ncols A)) y"
  shows "dscores_of A N y =
    Inr (mk_matrix N (ncols A)
      (\<lambda>i c. (entry A i c - (if c = norm_index (ncols A) (y ! i) then 1 else 0)) / real N))"
proof -
  have g: "\<And>t. t < N \<Longrightarrow> norm_index (ncols A) (y ! t) < ncols A"
    using assms by (auto simp: list_all_length in_bounds_def norm_index_def)
  have le: "N \<le> nrows A" using assms by simp
  note F = fold_rows_isub [OF assms(1) le g, of "\<lambda>t. t" 1, simplified]
  show ?thesis
    using assms F
    by (auto simp: dscores_of_def fancy_isub_def fancy_pairs_range np_idiv_scalar_def
        intro!: mk_matrix_cong)
qed

lemma np_transpose_mk: "np_transpose (mk_matrix r c f) = mk_matrix c r (\<lambda>i j. f j i)"
  by (auto simp: np_transpose_def intro!: mk_matrix_cong)

lemma np_dot_mk_mk:
  "np_dot (mk_matrix r m f) (mk_matrix m c g) =
     Inr (mk_matrix r c (\<lambda>i j. \<Sum>k<m. f i k * g k j))"
  by (auto simp: np_dot_def intro!: mk_matrix_cong)

lemma mask_nonpos_assign0_mk:
  "mask_nonpos_assign0 (mk_matrix r c f) (mk_matrix r c m) =
     Inr (mk_matrix r c (\<lambda>i j. if m i j \<le> 0 then 0 else f i j))"
  by (auto simp: mask_nonpos_assign0_def intro!: mk_matrix_cong)

lemma np_sum_axis0_mk:
  "np_sum_axis0 (mk_matrix r c f) = map (\<lambda>j. \<Sum>i<r. f i j) [0..<c]"
  by (simp add: np_sum_axis0_def)

lemma np_iadd_scale_mk:
  "nrows W = r \<Longrightarrow> ncols W = c \<Longrightarrow>
   np_iadd (mk_matrix r c f) (np_scale reg W) =
     Inr (mk_matrix r c (\<lambda>i j. f i j + reg * entry W i j))"
  by (auto simp: np_iadd_def np_scale_def intro!: mk_matrix_cong)

lemma backward_consistent:
  assumes "nrows X = N" "nrows W1 = ncols X" "nrows W2 = ncols W1"
  shows "backward X W1 W2 (mk_matrix N (ncols W1) hid) (mk_matrix N (ncols W2) ds) reg =
    Inr (Map.empty(
      ''W1'' \<mapsto> Mat (mk_matrix (ncols X) (ncols W1)
         (\<lambda>d h. (\<Sum>i<N. entry X i d * spec_dhidden (ncols W2) W2 hid ds i h) + reg * entry W1 d h)),
      ''b1'' \<mapsto> Vec (map (\<lambda>h. \<Sum>i<N. spec_dhidden (ncols W2) W2 hid ds i h) [0..<ncols W1]),
      ''W2'' \<mapsto> Mat (mk_matrix (ncols W1) (ncols W2)
         (\<lambda>h c. (\<Sum>i<N. hid i h * ds i c) + reg * entry W2 h c)),
      ''b2'' \<mapsto> Vec (map (\<lambda>c. \<Sum>i<N. ds i c) [0..<ncols W2])))"
proof -
  have t: "np_transpose W2 = mk_matrix (ncols W2) (ncols W1) (\<lambda>c h. entry W2 h c)"
    "np_transpose X = mk_matrix (ncols X) N (\<lambda>d i. entry X i d)"
    using assms by (simp_all add: np_transpose_def)
  show ?thesis
    unfolding backward_def np_transpose_mk t np_dot_mk_mk bindE_Inr Let_def
      mask_nonpos_assign0_mk np_sum_axis0_mk
    using assms
    by (simp add: np_iadd_scale_mk spec_dhidden_def [abs_def])
qed

lemma np_sum_all_mul_self: "np_sum_all (np_mul_self W) = spec_sumsq W"
  by (simp add: np_sum_all_def np_mul_self_def spec_sumsq_def power2_eq_square)

lemma two_layer_net_arrays_train:
  assumes c: "consistent X W1 b1 W2 b2" and len: "length y = nrows X"
  defines "s \<equiv> spec_scores X W1 b1 W2 b2"
  defines "P \<equiv> spec_probs (ncols W2) s"
  shows "two_layer_net_arrays X W1 b1 W2 b2 (Some y) reg =
    (if list_all (in_bounds (ncols W2)) y
     then Inr (LossGrads
        (if nrows X = 0 then None
         else Some (spec_data_loss (nrows X) (ncols W2) P y
                + 0.5 * reg * spec_sumsq W1 + 0.5 * reg * spec_sumsq W2))
        (spec_grads X W1 W2 (spec_hidden X W1 b1)
           (spec_dscores (nrows X) (ncols W2) P y) reg))
     else Inl IndexError)"
proof -
  have sh: "nrows W1 = ncols X" "length b1 = ncols W1" "nrows W2 = ncols W1"
    "length b2 = ncols W2"
    using c by (simp_all add: consistent_def)
  let ?P = "mk_matrix (nrows X) (ncols W2) P"
  have fwd: "hidden_layer X W1 b1 = Inr (mk_matrix (nrows X) (ncols W1) (spec_hidden X W1 b1))"
    "output_layer (mk_matrix (nrows X) (ncols W1) (spec_hidden X W1 b1)) W2 b2 =
       Inr (mk_matrix (nrows X) (ncols W2) s)"
    "softmax_probs (mk_matrix (nrows X) (ncols W2) s) = Inr ?P"
    unfolding s_def P_def
    using sh by (simp_all add: hidden_layer_consistent output_layer_consistent softmax_probs_mk)
  show ?thesis
  proof (cases "list_all (in_bounds (ncols W2)) y")
    case False
    then have "data_loss ?P (nrows X) y = Inl IndexError"
      using len by (simp add: data_loss_out_of_range)
    with False show ?thesis
      by (simp add: two_layer_net_arrays_def fwd)
  next
    case True
    have idx: "\<And>t. t < nrows X \<Longrightarrow> norm_index (ncols W2) (y ! t) < ncols W2"
      using True len by (auto simp: list_all_length in_bounds_def norm_index_def)
    have dl: "data_loss ?P (nrows X) y =
        Inr (if nrows X = 0 then None else Some (spec_data_loss (nrows X) (ncols W2) P y))"
      using True len idx by (simp add: data_loss_range spec_data_loss_def)
    have ds: "dscores_of ?P (nrows X) y =
        Inr (mk_matrix (nrows X) (ncols W2) (spec_dscores (nrows X) (ncols W2) P y))"
      using True len
      by (auto simp: dscores_of_range spec_dscores_def intro!: mk_matrix_cong)
    have bw: "backward X W1 W2 (mk_matrix (nrows X) (ncols W1) (spec_hidden X W1 b1))
        (mk_matrix (nrows X) (ncols W2) (spec_dscores (nrows X) (ncols W2) P y)) reg =
        Inr (spec_grads X W1 W2 (spec_hidden X W1 b1) (spec_dscores (nrows X) (ncols W2) P y) reg)"
      using sh by (simp add: backward_consistent spec_grads_def)
    show ?thesis
      using True
      by (simp add: two_layer_net_arrays_def fwd dl ds bw add_reg_def np_sum_all_mul_self Let_def)
  qed
qed

lemma two_layer_net_params:
  "params model W1 b1 W2 b2 \<Longrightarrow>
   two_layer_net X model y reg = two_layer_net_arrays X W1 b1 W2 b2 y reg"
  by (simp add: params_def two_layer_net_def lookup_def)

lemma valid_labels_in_bounds:
  "valid_labels N C y \<Longrightarrow> list_all (in_bounds C) y"
  by (auto simp: valid_labels_def in_bounds_def list_all_iff)

lemma valid_labels_norm_index:
  "valid_labels N C y \<Longrightarrow> i < N \<Longrightarrow> norm_index C (y ! i) = nat (y ! i) \<and> nat (y ! i) < C"
  by (auto simp: valid_labels_def norm_index_def list_all_length)

lemma two_layer_net_arrays_inference:
  assumes "consistent X W1 b1 W2 b2"
  shows "two_layer_net_arrays X W1 b1 W2 b2 None reg =
    Inr (Scores (mk_matrix (nrows X) (ncols W2) (spec_scores X W1 b1 W2 b2)))"
  using assms
  by (simp add: two_layer_net_arrays_def consistent_def hidden_layer_consistent
      output_layer_consistent)

subsection \<open>The softmax probabilities\<close>

lemma spec_probs_pos: "c < C \<Longrightarrow> 0 < spec_probs C s i c"
proof -
  assume "c < C"
  then have "0 < (\<Sum>k<C. exp (s i k))"
    by (intro sum_pos) auto
  then show ?thesis
    by (simp add: spec_probs_def)
qed

lemma spec_probs_le_1: "c < C \<Longrightarrow> spec_probs C s i c \<le> 1"
proof -
  assume c: "c < C"
  have "exp (s i c) = (\<Sum>k\<in>{c}. exp (s i k))"
    by simp
  also have "\<dots> \<le> (\<Sum>k<C. exp (s i k))"
    using c by (intro sum_mono2) auto
  finally have le: "exp (s i c) \<le> (\<Sum>k<C. exp (s i k))" .
  moreover have "0 < (\<Sum>k<C. exp (s i k))"
    using c by (intro sum_pos) auto
  ultimately show ?thesis
    by (simp add: spec_probs_def)
qed

lemma spec_probs_sum: "0 < C \<Longrightarrow> (\<Sum>c<C. spec_probs C s i c) = 1"
proof -
  assume "0 < C"
  then have "0 < (\<Sum>k<C. exp (s i k))"
    by (intro sum_pos) auto
  then show ?thesis
    by (simp add: spec_probs_def sum_divide_distrib [symmetric])
qed

lemma spec_dscores_row_sum:
  assumes "norm_index C (y ! i) < C"
  shows "(\<Sum>c<C. spec_dscores N C (spec_probs C s) y i c) = 0"
proof -
  let ?g = "norm_index C (y ! i)"
  have C: "0 < C" using assms by simp
  have d: "(\<Sum>c<C. if c = ?g then 1 else 0) = (1::real)"
    using assms by simp
  have "(\<Sum>c<C. spec_dscores N C (spec_probs C s) y i c) =
      (\<Sum>c<C. spec_probs C s i c - (if c = ?g then 1 else 0)) / real N"
    unfolding spec_dscores_def by (rule sum_divide_distrib [symmetric])
  also have "\<dots> = ((\<Sum>c<C. spec_probs C s i c) - (\<Sum>c<C. if c = ?g then 1 else 0)) / real N"
    by (simp only: sum_subtractf)
  finally show ?thesis
    by (simp only: d spec_probs_sum [OF C]) simp
qed

lemma neg_ln_prob_nonneg: "0 < p \<Longrightarrow> p \<le> 1 \<Longrightarrow> 0 \<le> - ln (p::real)"
  by simp

lemma spec_data_loss_nonneg:
  assumes "\<And>i. i < N \<Longrightarrow> norm_index C (y ! i) < C"
  shows "0 \<le> spec_data_loss N C (spec_probs C s) y"
proof -
  have "0 \<le> (\<Sum>i<N. - ln (spec_probs C s i (norm_index C (y ! i))))"
    using assms by (intro sum_nonneg neg_ln_prob_nonneg spec_probs_pos spec_probs_le_1) auto
  then show ?thesis
    by (simp add: spec_data_loss_def)
qed

lemma spec_sumsq_nonneg: "0 \<le> spec_sumsq W"
  by (simp add: spec_sumsq_def sum_nonneg)

lemma relu_gate_pre:
  "spec_hidden X W1 b1 i h \<le> 0 \<longleftrightarrow> spec_pre X W1 b1 i h \<le> 0"
  by (simp add: spec_hidden_def max_def)

lemma spec_grads_cong:
  assumes "\<And>i c. i < nrows X \<Longrightarrow> c < ncols W2 \<Longrightarrow> ds i c = ds' i c"
  shows "spec_grads X W1 W2 hid ds reg = spec_grads X W1 W2 hid ds' reg"
proof -
  have dh: "spec_dhidden (ncols W2) W2 hid ds i h = spec_dhidden (ncols W2) W2 hid ds' i h"
    if "i < nrows X" for i h
    using that assms by (simp add: spec_dhidden_def)
  have a: "mk_matrix (ncols X) (ncols W1)
        (\<lambda>d h. (\<Sum>i<nrows X. entry X i d * spec_dhidden (ncols W2) W2 hid ds i h)
                  + reg * entry W1 d h) =
      mk_matrix (ncols X) (ncols W1)
        (\<lambda>d h. (\<Sum>i<nrows X. entry X i d * spec_dhidden (ncols W2) W2 hid ds' i h)
                  + reg * entry W1 d h)"
    using dh by (intro mk_matrix_cong) simp
  have b: "map (\<lambda>h. \<Sum>i<nrows X. spec_dhidden (ncols W2) W2 hid ds i h) [0..<ncols W1] =
      map (\<lambda>h. \<Sum>i<nrows X. spec_dhidden (ncols W2) W2 hid ds' i h) [0..<ncols W1]"
    using dh by simp
  have c: "mk_matrix (ncols W1) (ncols W2)
        (\<lambda>h c. (\<Sum>i<nrows X. hid i h * ds i c) + reg * entry W2 h c) =
      mk_matrix (ncols W1) (ncols W2)
        (\<lambda>h c. (\<Sum>i<nrows X. hid i h * ds' i c) + reg * entry W2 h c)"
    using assms by (intro mk_matrix_cong) simp
  have d: "map (\<lambda>c. \<Sum>i<nrows X. ds i c) [0..<ncols W2] =
      map (\<lambda>c. \<Sum>i<nrows X. ds' i c) [0..<ncols W2]"
    using assms by simp
  show ?thesis
    unfolding spec_grads_def a b c d ..
qed

subsection \<open>The example inputs\<close>

lemma ex_consistent: "consistent ex_X ex_W1 ex_b1 ex_W2 ex_b2"
  by (simp add: consistent_def wf_matrix_def ex_X_def ex_W1_def ex_b1_def ex_W2_def ex_b2_def)

lemma ex_params: "params ex_model ex_W1 ex_b1 ex_W2 ex_b2"
  by (simp add: params_def ex_model_def)

lemma ex_shapes [simp]:
  "nrows ex_X = 2" "ncols ex_X = 2" "nrows ex_W1 = 2" "ncols ex_W1 = 3"
  "nrows ex_W2 = 3" "ncols ex_W2 = 2"
  by (simp_all add: ex_X_def ex_W1_def ex_W2_def)

lemma zero_consistent: "consistent zero_X zero_W1 [0] zero_W2 [0, 0]"
  by (simp add: consistent_def wf_matrix_def zero_X_def zero_W1_def zero_W2_def)

lemma zero_params: "params zero_model zero_W1 [0] zero_W2 [0, 0]"
  by (simp add: params_def zero_model_def)

lemma zero_shapes [simp]:
  "nrows zero_X = 1" "ncols zero_X = 1" "nrows zero_W1 = 1" "ncols zero_W1 = 1"
  "nrows zero_W2 = 1" "ncols zero_W2 = 2"
  by (simp_all add: zero_X_def zero_W1_def zero_W2_def)

lemma spec_sumsq_zero [simp]: "spec_sumsq zero_W1 = 0" "spec_sumsq zero_W2 = 0"
  by (simp_all add: spec_sumsq_def zero_W1_def zero_W2_def entry_def lessThan_Suc numeral_2_eq_2)

lemma zero_scores: "i < 1 \<Longrightarrow> spec_scores zero_X zero_W1 [0] zero_W2 [0, 0] i c = [0, 0] ! c"
  by (simp add: spec_scores_def spec_hidden_def spec_pre_def zero_X_def zero_W1_def zero_W2_def
      entry_def)

lemma zero_probs:
  "c < 2 \<Longrightarrow> spec_probs 2 (spec_scores zero_X zero_W1 [0] zero_W2 [0, 0]) 0 c = 1 / 2"
  by (auto simp: spec_probs_def zero_scores lessThan_Suc numeral_2_eq_2 less_Suc_eq)

lemma zero_loss:
  assumes "y = 0 \<or> y = 1 \<or> y = - 1 \<or> y = - 2"
  shows "loss_of (two_layer_net zero_X zero_model (Some [y]) reg) = Some (ln 2)"
proof -
  have l: "- ln (1 / 2 :: real) = ln 2"
    by (simp add: ln_div)
  have inb: "list_all (in_bounds (ncols zero_W2)) [y]"
    using assms by (auto simp: in_bounds_def)
  have n: "norm_index 2 y < 2"
    using assms by (auto simp: norm_index_def)
  have len: "length [y] = nrows zero_X"
    by simp
  show ?thesis
    using inb
    by (simp add: two_layer_net_params [OF zero_params]
        two_layer_net_arrays_train [OF zero_consistent len] loss_of_def spec_data_loss_def
        zero_probs [OF n] l)
qed

lemma empty_consistent: "consistent empty_X ex_W1 ex_b1 ex_W2 ex_b2"
  by (simp add: consistent_def wf_matrix_def empty_X_def ex_W1_def ex_b1_def ex_W2_def ex_b2_def)

lemma empty_shapes [simp]: "nrows empty_X = 0" "ncols empty_X = 2"
  by (simp_all add: empty_X_def)

section \<open>Properties of the store-level program\<close>

lemma prefix_list_update:
  assumes "prefix xs ys" "length xs \<le> a"
  shows "prefix xs (ys[a := v])"
proof -
  from assms(1) obtain zs where "ys = xs @ zs"
    by (auto simp: prefix_def)
  with assms(2) show ?thesis
    by (simp add: list_update_append)
qed

lemma ext_refl [simp]: "ext h h"
  by (simp add: ext_def)

lemma frame_returnS: "P v \<Longrightarrow> frame h0 (returnS v) P"
  by (simp add: frame_def returnS_def)

lemma frame_liftE: "frame h0 (liftE r) (\<lambda>_. True)"
  by (simp add: frame_def liftE_def)

lemma frame_bindS:
  assumes "frame h0 m P" "\<And>v. P v \<Longrightarrow> frame h0 (f v) Q"
  shows "frame h0 (bindS m f) Q"
  unfolding frame_def
proof (intro allI impI)
  fix h assume h: "ext h0 h"
  obtain r h1 where m: "m h = (r, h1)"
    by (cases "m h")
  have h1: "ext h0 h1" and P: "\<And>v. r = Inr v \<Longrightarrow> P v"
    using assms(1) h m by (auto simp: frame_def)
  show "ext h0 (snd (bindS m f h)) \<and> (\<forall>v. fst (bindS m f h) = Inr v \<longrightarrow> Q v)"
  proof (cases r)
    case (Inl e)
    with m h1 show ?thesis by (simp add: bindS_def)
  next
    case (Inr x)
    with assms(2) [OF P [OF Inr]] h1 m show ?thesis
      by (simp add: bindS_def frame_def)
  qed
qed

lemma frame_get_mat: "frame h0 (get_mat a) (\<lambda>_. True)"
  by (simp add: frame_def get_mat_def split: ndarray.splits)

lemma frame_get_vec: "frame h0 (get_vec a) (\<lambda>_. True)"
  by (simp add: frame_def get_vec_def split: ndarray.splits)

lemma frame_dict_get: "frame h0 (dict_get d k) (\<lambda>_. True)"
  by (simp add: frame_def dict_get_def split: option.splits)

lemma frame_new_arr: "frame h0 (new_arr v) (fresh_arr h0)"
  by (auto simp: frame_def new_arr_def ext_def fresh_arr_def prefix_length_le)

lemma frame_put_arr: "fresh_arr h0 a \<Longrightarrow> frame h0 (put_arr a v) (\<lambda>_. True)"
  by (simp add: frame_def put_arr_def ext_def fresh_arr_def prefix_list_update)

lemma frame_new_dict: "frame h0 new_dict (fresh_dict h0)"
  by (auto simp: frame_def new_dict_def ext_def fresh_dict_def prefix_length_le)

lemma frame_dict_set: "fresh_dict h0 d \<Longrightarrow> frame h0 (dict_set d k a) (\<lambda>_. True)"
  by (simp add: frame_def dict_set_def ext_def fresh_dict_def prefix_list_update)

lemma frame_bind_read:
  assumes "frame h0 m (\<lambda>_. True)" "\<And>v. frame h0 (f v) Q"
  shows "frame h0 (bindS m f) Q"
  using assms(1) by (rule frame_bindS) (rule assms(2))

lemma frame_bind_new:
  assumes "frame h0 m (fresh_arr h0)" "\<And>a. fresh_arr h0 a \<Longrightarrow> frame h0 (f a) Q"
  shows "frame h0 (bindS m f) Q"
  using assms by (rule frame_bindS)

lemma frame_mat_op1: "frame h0 (mat_op1 f a) (fresh_arr h0)"
  unfolding mat_op1_def
  by (rule frame_bind_read, rule frame_get_mat, rule frame_bind_read, rule frame_liftE,
      rule frame_new_arr)

lemma frame_mat_op2: "frame h0 (mat_op2 f a b) (fresh_arr h0)"
  unfolding mat_op2_def
  by (rule frame_bind_read, rule frame_get_mat, rule frame_bind_read, rule frame_get_mat,
      rule frame_bind_read, rule frame_liftE, rule frame_new_arr)

lemma frame_mat_vec_op: "frame h0 (mat_vec_op f a b) (fresh_arr h0)"
  unfolding mat_vec_op_def
  by (rule frame_bind_read, rule frame_get_mat, rule frame_bind_read, rule frame_get_vec,
      rule frame_bind_read, rule frame_liftE, rule frame_new_arr)

lemma frame_mat_to_vec: "frame h0 (mat_to_vec f a) (fresh_arr h0)"
  unfolding mat_to_vec_def
  by (rule frame_bind_read, rule frame_get_mat, rule frame_bind_read, rule frame_liftE,
      rule frame_new_arr)

lemma frame_vec_op1: "frame h0 (vec_op1 f a) (fresh_arr h0)"
  unfolding vec_op1_def
  by (rule frame_bind_read, rule frame_get_vec, rule frame_new_arr)

lemma frame_mat_upd1: "fresh_arr h0 a \<Longrightarrow> frame h0 (mat_upd1 f a) (\<lambda>_. True)"
  unfolding mat_upd1_def
  by (rule frame_bind_read, rule frame_get_mat, rule frame_bind_read, rule frame_liftE,
      rule frame_put_arr)

lemma frame_mat_upd2: "fresh_arr h0 a \<Longrightarrow> frame h0 (mat_upd2 f a b) (\<lambda>_. True)"
  unfolding mat_upd2_def
  by (rule frame_bind_read, rule frame_get_mat, rule frame_bind_read, rule frame_get_mat,
      rule frame_bind_read, rule frame_liftE, rule frame_put_arr)

lemmas frame_new_ops =
  frame_mat_op1 frame_mat_op2 frame_mat_vec_op frame_mat_to_vec frame_vec_op1

lemma frame_forward_s:
  "frame h0 (forward_s X W1 b1 W2 b2) (\<lambda>(hid, sc). fresh_arr h0 hid \<and> fresh_arr h0 sc)"
  unfolding forward_s_def
  by (rule frame_bind_new, rule frame_new_ops)+ (rule frame_returnS, simp)

lemma frame_reg_term_s: "frame h0 (reg_term_s loss reg W) (\<lambda>_. True)"
  unfolding reg_term_s_def
  by (rule frame_bind_new, rule frame_mat_op1, rule frame_bind_read, rule frame_get_mat,
      rule frame_returnS, simp)

lemma frame_loss_s:
  "frame h0 (loss_s X W1 W2 scores y reg) (\<lambda>(loss, cp, n). fresh_arr h0 cp)"
  unfolding loss_s_def Let_def
  apply (rule frame_bind_new, rule frame_mat_op1)
  apply (rule frame_bind_new, rule frame_mat_op1)
  apply (rule frame_bind_new, rule frame_mat_op2)
  apply (rule frame_bind_read, rule frame_get_mat)
  apply (rule frame_bind_new, rule frame_mat_to_vec)
  apply (rule frame_bind_new, rule frame_vec_op1)
  apply (rule frame_bind_read, rule frame_get_vec)
  apply (rule frame_bind_read, rule frame_reg_term_s)
  apply (rule frame_bind_read, rule frame_reg_term_s)
  apply (rule frame_returnS, simp)
  done

lemma frame_grads_s:
  assumes "fresh_arr h0 class_probs"
  shows "frame h0 (grads_s X W1 W2 hidden class_probs num_train y reg)
    (\<lambda>(dW1, db1, dW2, db2).
       fresh_arr h0 dW1 \<and> fresh_arr h0 db1 \<and> fresh_arr h0 dW2 \<and> fresh_arr h0 db2)"
  unfolding grads_s_def Let_def
  apply (rule frame_bind_read, rule frame_mat_upd1, rule assms)
  apply (rule frame_bind_read, rule frame_mat_upd1, rule assms)
  apply (rule frame_bind_new, rule frame_mat_op1)
  apply (rule frame_bind_new, rule frame_mat_op2)
  apply (rule frame_bind_new, rule frame_mat_to_vec)
  apply (rule frame_bind_new, rule frame_mat_op1)
  apply (rule frame_bind_new, rule frame_mat_op2)
  apply (rule frame_bind_read, rule frame_mat_upd2, assumption)
  apply (rule frame_bind_new, rule frame_mat_op1)
  apply (rule frame_bind_new, rule frame_mat_op2)
  apply (rule frame_bind_new, rule frame_mat_to_vec)
  apply (rule frame_bind_new, rule frame_mat_op1)
  apply (rule frame_bind_read, rule frame_mat_upd2, assumption)
  apply (rule frame_bind_new, rule frame_mat_op1)
  apply (rule frame_bind_read, rule frame_mat_upd2, assumption)
  apply (rule frame_returnS, simp)
  done

lemma frame_unpack_s: "frame h0 (unpack_s model) (\<lambda>_. True)"
  unfolding unpack_s_def
  by (rule frame_bind_read, rule frame_dict_get)+ (rule frame_returnS, simp)

lemma frame_fill_grads_s:
  "fresh_dict h0 g \<Longrightarrow> frame h0 (fill_grads_s g loss dW1 db1 dW2 db2) (fresh_result h0)"
  unfolding fill_grads_s_def
  by (intro frame_bind_read frame_dict_set frame_returnS) (simp_all add: fresh_result_def)

lemma frame_train_s:
  "frame h0 (train_s X W1 W2 hidden scores y reg) (fresh_result h0)"
  unfolding train_s_def
  apply (rule frame_bindS [OF frame_loss_s])
  apply (clarsimp simp del: split_paired_All)
  apply (rule frame_bindS [OF frame_new_dict])
  apply (rule frame_bindS [OF frame_grads_s], assumption)
  apply (clarsimp simp del: split_paired_All)
  apply (rule frame_fill_grads_s, assumption)
  done

lemma frame_two_layer_net_s:
  "frame h0 (two_layer_net_s X model y reg) (fresh_result h0)"
  unfolding two_layer_net_s_def
  apply (rule frame_bind_read, rule frame_unpack_s)
  apply (clarsimp simp del: split_paired_All)
  apply (rule frame_bind_read, rule frame_get_mat)
  apply (rule frame_bindS [OF frame_forward_s])
  apply (clarsimp simp del: split_paired_All split: option.splits)
  apply (intro conjI impI allI)
   apply (rule frame_returnS, simp add: fresh_result_def)
  apply (rule frame_train_s)
  done

lemma keeps_dicts_bindS:
  assumes "keeps_dicts m" "\<And>v. keeps_dicts (f v)"
  shows "keeps_dicts (bindS m f)"
  unfolding keeps_dicts_def
proof
  fix h
  obtain r h1 where m: "m h = (r, h1)"
    by (cases "m h")
  have h1: "dicts h1 = dicts h"
    using assms(1) m by (auto simp: keeps_dicts_def dest: spec [of _ h])
  show "dicts (snd (bindS m f h)) = dicts h"
  proof (cases r)
    case (Inl e)
    with m h1 show ?thesis by (simp add: bindS_def)
  next
    case (Inr x)
    with assms(2) [of x] m h1 show ?thesis
      by (simp add: bindS_def keeps_dicts_def)
  qed
qed

lemma keeps_dicts_prims:
  "keeps_dicts (returnS v)" "keeps_dicts (liftE r)" "keeps_dicts (get_mat a)"
  "keeps_dicts (get_vec a)" "keeps_dicts (new_arr w)" "keeps_dicts (put_arr a w)"
  by (simp_all add: keeps_dicts_def returnS_def liftE_def get_mat_def get_vec_def new_arr_def
      put_arr_def split: ndarray.splits)

lemma keeps_dicts_ops:
  "keeps_dicts (mat_op1 f a)" "keeps_dicts (mat_op2 g a b)" "keeps_dicts (mat_to_vec k a)"
  "keeps_dicts (mat_upd1 f a)" "keeps_dicts (mat_upd2 g a b)"
  unfolding mat_op1_def mat_op2_def mat_to_vec_def mat_upd1_def mat_upd2_def
  by (intro keeps_dicts_bindS keeps_dicts_prims)+

lemma keeps_dicts_grads_s:
  "keeps_dicts (grads_s X W1 W2 hidden class_probs num_train y reg)"
  unfolding grads_s_def Let_def
  by (intro keeps_dicts_bindS keeps_dicts_ops keeps_dicts_prims)

lemma bindS_Inr_elim:
  assumes "bindS m f h = (Inr v, h')"
  obtains x h1 where "m h = (Inr x, h1)" "f x h1 = (Inr v, h')"
  using assms by (auto simp: bindS_def split: prod.splits sum.splits)

lemma frameD:
  assumes "frame h0 m P" "ext h0 h" "m h = (r, h')"
  shows "ext h0 h'" "\<And>v. r = Inr v \<Longrightarrow> P v"
  using assms by (auto simp: frame_def)

lemma fill_grads_dict:
  assumes "g < length (dicts h)" "dicts h ! g = Map.empty"
    "fill_grads_s g loss dW1 db1 dW2 db2 h = (res, h')"
  shows "res = Inr (LossGradsRef loss g) \<and>
    dicts h' ! g = Map.empty(''W1'' \<mapsto> dW1, ''b1'' \<mapsto> db1, ''W2'' \<mapsto> dW2, ''b2'' \<mapsto> db2)"
  using assms by (auto simp: fill_grads_s_def bindS_def dict_set_def returnS_def)

lemma train_s_dict:
  assumes run: "train_s X W1 W2 hidden scores y reg h = (Inr r, h')" and e: "ext h0 h"
  shows "\<exists>loss g dW1 db1 dW2 db2.
       r = LossGradsRef loss g \<and> fresh_dict h0 g \<and>
       dicts h' ! g = Map.empty(''W1'' \<mapsto> dW1, ''b1'' \<mapsto> db1, ''W2'' \<mapsto> dW2, ''b2'' \<mapsto> db2) \<and>
       fresh_arr h0 dW1 \<and> fresh_arr h0 db1 \<and> fresh_arr h0 dW2 \<and> fresh_arr h0 db2"
proof -
  from run obtain lcn h1 where 1: "loss_s X W1 W2 scores y reg h = (Inr lcn, h1)" and
    r1: "(case lcn of (loss, class_probs, num_train) \<Rightarrow>
       bindS new_dict (\<lambda>grads.
       bindS (grads_s X W1 W2 hidden class_probs num_train y reg) (\<lambda>(dW1, db1, dW2, db2).
       fill_grads_s grads loss dW1 db1 dW2 db2))) h1 = (Inr r, h')"
    unfolding train_s_def by (rule bindS_Inr_elim)
  obtain loss cp n where lcn: "lcn = (loss, cp, n)"
    by (cases lcn)
  have e1: "ext h0 h1" and cp: "fresh_arr h0 cp"
    using frameD [OF frame_loss_s e 1] lcn by auto
  let ?h2 = "h1\<lparr>dicts := dicts h1 @ [Map.empty]\<rparr>" and ?g = "length (dicts h1)"
  have r2: "bindS (grads_s X W1 W2 hidden cp n y reg) (\<lambda>(dW1, db1, dW2, db2).
       fill_grads_s ?g loss dW1 db1 dW2 db2) ?h2 = (Inr r, h')"
    using r1 lcn by (simp add: bindS_def new_dict_def)
  have e2: "ext h0 ?h2"
    using e1 by (auto simp: ext_def)
  from r2 obtain ds h3 where 3: "grads_s X W1 W2 hidden cp n y reg ?h2 = (Inr ds, h3)" and
    r3: "(case ds of (dW1, db1, dW2, db2) \<Rightarrow> fill_grads_s ?g loss dW1 db1 dW2 db2) h3 =
      (Inr r, h')"
    by (rule bindS_Inr_elim)
  obtain dW1 db1 dW2 db2 where ds: "ds = (dW1, db1, dW2, db2)"
    by (cases ds)
  have fr: "fresh_arr h0 dW1" "fresh_arr h0 db1" "fresh_arr h0 dW2" "fresh_arr h0 db2"
    using frameD(2) [OF frame_grads_s [OF cp] e2 3] ds by auto
  have d3: "dicts h3 = dicts h1 @ [Map.empty]"
    using keeps_dicts_grads_s [of X W1 W2 hidden cp n y reg] 3
    by (auto simp: keeps_dicts_def dest: spec [of _ ?h2])
  have g3: "?g < length (dicts h3)" "dicts h3 ! ?g = Map.empty"
    by (simp_all add: d3)
  have fill: "fill_grads_s ?g loss dW1 db1 dW2 db2 h3 = (Inr r, h')"
    using r3 ds by simp
  from fill_grads_dict [OF g3 fill]
  have r: "r = LossGradsRef loss ?g" and
    d: "dicts h' ! ?g = Map.empty(''W1'' \<mapsto> dW1, ''b1'' \<mapsto> db1, ''W2'' \<mapsto> dW2, ''b2'' \<mapsto> db2)"
    by auto
  have "fresh_dict h0 ?g"
    using e1 by (simp add: fresh_dict_def ext_def prefix_length_le)
  with r d fr show ?thesis
    by blast
qed

lemma two_layer_net_s_train_elim:
  assumes "two_layer_net_s X model y reg h = (Inr r, h')"
  obtains s where "r = ScoresRef s" "y = None"
  | W1 W2 hidden scores y' h1 where "y = Some y'" "ext h h1"
      "train_s X W1 W2 hidden scores y' reg h1 = (Inr r, h')"
proof -
  from assms obtain ws h1 where 1: "unpack_s model h = (Inr ws, h1)" and
    r1: "(case ws of (W1, b1, W2, b2) \<Rightarrow>
       bindS (get_mat X) (\<lambda>_.
       bindS (forward_s X W1 b1 W2 b2) (\<lambda>(hidden_layer_scores, scores).
       case y of
         None \<Rightarrow> returnS (ScoresRef scores)
       | Some y \<Rightarrow> train_s X W1 W2 hidden_layer_scores scores y reg))) h1 = (Inr r, h')"
    unfolding two_layer_net_s_def by (rule bindS_Inr_elim)
  obtain W1 b1 W2 b2 where ws: "ws = (W1, b1, W2, b2)"
    by (cases ws)
  have e1: "ext h h1"
    using frameD(1) [OF frame_unpack_s ext_refl 1] .
  from r1 ws obtain Xv h2 where 2: "get_mat X h1 = (Inr Xv, h2)" and
    r2: "bindS (forward_s X W1 b1 W2 b2) (\<lambda>(hidden_layer_scores, scores).
       case y of
         None \<Rightarrow> returnS (ScoresRef scores)
       | Some y \<Rightarrow> train_s X W1 W2 hidden_layer_scores scores y reg) h2 = (Inr r, h')"
    by (auto elim: bindS_Inr_elim)
  have e2: "ext h h2"
    using frameD(1) [OF frame_get_mat e1 2] .
  from r2 obtain hs h3 where 3: "forward_s X W1 b1 W2 b2 h2 = (Inr hs, h3)" and
    r3: "(case hs of (hidden_layer_scores, scores) \<Rightarrow>
       case y of
         None \<Rightarrow> returnS (ScoresRef scores)
       | Some y \<Rightarrow> train_s X W1 W2 hidden_layer_scores scores y reg) h3 = (Inr r, h')"
    by (rule bindS_Inr_elim)
  obtain hidden scores where hs: "hs = (hidden, scores)"
    by (cases hs)
  have e3: "ext h h3"
    using frameD(1) [OF frame_forward_s e2 3] .
  show ?thesis
  proof (cases y)
    case None
    with r3 hs have "r = ScoresRef scores"
      by (simp add: returnS_def)
    with None that(1) show ?thesis by blast
  next
    case (Some y')
    with r3 hs have "train_s X W1 W2 hidden scores y' reg h3 = (Inr r, h')"
      by simp
    with Some e3 that(2) show ?thesis by blast
  qed
qed

lemma prefix_nth: "prefix xs ys \<Longrightarrow> i < length xs \<Longrightarrow> ys ! i = xs ! i"
  by (auto simp: prefix_def nth_append)

subsection \<open>Agreement with the functions on values\<close>

text \<open>
  Run on a store that holds its arguments, the store-level program raises exactly the error
  \<open>two_layer_net\<close> returns on the stored values, and otherwise returns references to the result
  \<open>two_layer_net\<close> returns on them. Each block is run symbolically by the simplifier.
\<close>

lemmas run_defs = bindS_def returnS_def liftE_def get_mat_def get_vec_def new_arr_def put_arr_def
  mat_op1_def mat_op2_def mat_vec_op_def mat_to_vec_def vec_op1_def mat_upd1_def mat_upd2_def

lemma forward_s_run:
  assumes "holds_mat h X Xv" "holds_mat h w1 W1" "holds_vec h v1 b1" "holds_mat h w2 W2"
    "holds_vec h v2 b2"
  shows "case forward_s X w1 v1 w2 v2 h of
      (Inl e, h') \<Rightarrow> bindE (hidden_layer Xv W1 b1) (\<lambda>hid. output_layer hid W2 b2) = Inl e
    | (Inr (hid, sc), h') \<Rightarrow>
        (\<exists>Hid Sc. hidden_layer Xv W1 b1 = Inr Hid \<and> output_layer Hid W2 b2 = Inr Sc \<and>
           holds_mat h' hid Hid \<and> holds_mat h' sc Sc) \<and>
        length (arrays h) \<le> hid \<and> length (arrays h) \<le> sc \<and>
        prefix (arrays h) (arrays h') \<and> dicts h' = dicts h"
  using assms
  by (simp add: forward_s_def run_defs hidden_layer_def output_layer_def bindE_def holds_mat_def
      holds_vec_def nth_append split: sum.splits)

lemma loss_s_run:
  assumes "holds_mat h X Xv" "holds_mat h w1 W1" "holds_mat h w2 W2" "holds_mat h sc Sc"
  shows "case loss_s X w1 w2 sc y reg h of
      (Inl e, h') \<Rightarrow>
        bindE (softmax_probs Sc) (\<lambda>P. data_loss P (nrows Xv) y) = Inl e
    | (Inr (loss, cp, n), h') \<Rightarrow>
        (\<exists>P l0. softmax_probs Sc = Inr P \<and> data_loss P (nrows Xv) y = Inr l0 \<and>
           loss = add_reg (add_reg l0 reg W1) reg W2 \<and> holds_mat h' cp P) \<and>
        n = nrows Xv \<and> length (arrays h) \<le> cp \<and>
        prefix (arrays h) (arrays h') \<and> dicts h' = dicts h"
  using assms
  by (simp add: loss_s_def reg_term_s_def run_defs softmax_probs_def data_loss_def add_reg_def
      np_divide_def bindE_def holds_mat_def
      holds_vec_def nth_append Let_def split: sum.splits)

lemma grads_s_run:
  assumes "holds_mat h X Xv" "holds_mat h w1 W1" "holds_mat h w2 W2" "holds_mat h hid Hid"
    "holds_mat h cp P" "cp \<noteq> X" "cp \<noteq> w1" "cp \<noteq> w2" "cp \<noteq> hid"
  shows "case grads_s X w1 w2 hid cp N y reg h of
      (Inl e, h') \<Rightarrow>
        bindE (dscores_of P N y) (\<lambda>ds. backward Xv W1 W2 Hid ds reg) = Inl e
    | (Inr (dW1, db1, dW2, db2), h') \<Rightarrow>
        bindE (dscores_of P N y) (\<lambda>ds. backward Xv W1 W2 Hid ds reg) =
          Inr (Map.empty(''W1'' \<mapsto> arrays h' ! dW1, ''b1'' \<mapsto> arrays h' ! db1,
                         ''W2'' \<mapsto> arrays h' ! dW2, ''b2'' \<mapsto> arrays h' ! db2)) \<and>
        length (arrays h) \<le> dW1 \<and> length (arrays h) \<le> db1 \<and>
        length (arrays h) \<le> dW2 \<and> length (arrays h) \<le> db2 \<and>
        dW1 < length (arrays h') \<and> db1 < length (arrays h') \<and>
        dW2 < length (arrays h') \<and> db2 < length (arrays h') \<and>
        dicts h' = dicts h"
  using assms
  by (simp add: grads_s_def run_defs dscores_of_def backward_def bindE_def holds_mat_def
      holds_vec_def nth_append nth_list_update Let_def split: sum.splits)

lemma holds_mat_prefix:
  "holds_mat h a M \<Longrightarrow> prefix (arrays h) (arrays h') \<Longrightarrow> holds_mat h' a M"
  by (auto simp: holds_mat_def prefix_def nth_append)

lemma deref_upd: "deref h (d(k \<mapsto> a)) = (deref h d)(k \<mapsto> arrays h ! a)"
  by (auto simp: deref_def)

lemma deref_empty: "deref h Map.empty = Map.empty"
  by (simp add: deref_def)

lemma fill_grads_s_run:
  assumes "g < length (dicts h)" "dicts h ! g = Map.empty"
  shows "\<exists>h'. fill_grads_s g loss dW1 db1 dW2 db2 h = (Inr (LossGradsRef loss g), h') \<and>
    arrays h' = arrays h \<and> g < length (dicts h') \<and>
    dicts h' ! g = Map.empty(''W1'' \<mapsto> dW1, ''b1'' \<mapsto> db1, ''W2'' \<mapsto> dW2, ''b2'' \<mapsto> db2)"
  using assms by (simp add: fill_grads_s_def bindS_def dict_set_def returnS_def)

lemma train_s_run:
  assumes X: "holds_mat h X Xv" and w1: "holds_mat h w1 W1" and w2: "holds_mat h w2 W2"
    and hid: "holds_mat h hid Hid" and sc: "holds_mat h sc Sc"
  shows "case train_s X w1 w2 hid sc y reg h of
      (Inl e, h') \<Rightarrow>
        bindE (softmax_probs Sc) (\<lambda>P. bindE (data_loss P (nrows Xv) y) (\<lambda>l0.
        bindE (dscores_of P (nrows Xv) y) (\<lambda>ds. backward Xv W1 W2 Hid ds reg))) = Inl e
    | (Inr r, h') \<Rightarrow>
        (\<exists>P l0 ds grads. softmax_probs Sc = Inr P \<and> data_loss P (nrows Xv) y = Inr l0 \<and>
           dscores_of P (nrows Xv) y = Inr ds \<and> backward Xv W1 W2 Hid ds reg = Inr grads \<and>
           denotes h' r (LossGrads (add_reg (add_reg l0 reg W1) reg W2) grads))"
proof -
  obtain r1 h1 where 1: "loss_s X w1 w2 sc y reg h = (r1, h1)"
    by (cases "loss_s X w1 w2 sc y reg h")
  note L = loss_s_run [OF X w1 w2 sc, of y reg, unfolded 1, simplified]
  show ?thesis
  proof (cases r1)
    case (Inl e)
    with L 1 show ?thesis
      by (auto simp: train_s_def bindS_def bindE_def split: sum.splits)
  next
    case (Inr lcn)
    obtain loss cp n where lcn: "lcn = (loss, cp, n)"
      by (cases lcn)
    from L Inr lcn obtain P l0 where P: "softmax_probs Sc = Inr P" and
      l0: "data_loss P (nrows Xv) y = Inr l0" and
      loss: "loss = add_reg (add_reg l0 reg W1) reg W2" and cpP: "holds_mat h1 cp P" and
      n: "n = nrows Xv" and fresh: "length (arrays h) \<le> cp" and
      pre: "prefix (arrays h) (arrays h1)" and d1: "dicts h1 = dicts h"
      by auto
    let ?h2 = "h1\<lparr>dicts := dicts h1 @ [Map.empty]\<rparr>" and ?g = "length (dicts h1)"
    have a2: "arrays ?h2 = arrays h1"
      by simp
    have hs: "holds_mat ?h2 X Xv" "holds_mat ?h2 w1 W1" "holds_mat ?h2 w2 W2"
      "holds_mat ?h2 hid Hid" "holds_mat ?h2 cp P"
      using X w1 w2 hid cpP pre by (auto simp: holds_mat_def prefix_def nth_append)
    have ne: "cp \<noteq> X" "cp \<noteq> w1" "cp \<noteq> w2" "cp \<noteq> hid"
      using X w1 w2 hid fresh by (auto simp: holds_mat_def)
    obtain r3 h3 where 3: "grads_s X w1 w2 hid cp n y reg ?h2 = (r3, h3)"
      by (cases "grads_s X w1 w2 hid cp n y reg ?h2")
    note G = grads_s_run [OF hs ne, of n y reg, unfolded 3, simplified]
    have t: "train_s X w1 w2 hid sc y reg h =
        (case r3 of Inl e \<Rightarrow> (Inl e, h3)
         | Inr (dW1, db1, dW2, db2) \<Rightarrow> fill_grads_s ?g loss dW1 db1 dW2 db2 h3)"
      using 1 Inr lcn 3 by (simp add: train_s_def bindS_def new_dict_def split: sum.splits)
    show ?thesis
    proof (cases r3)
      case (Inl e)
      with G t P l0 n show ?thesis
        by (auto simp: bindE_def split: sum.splits)
    next
      case r3: (Inr ds)
      obtain dW1 db1 dW2 db2 where ds: "ds = (dW1, db1, dW2, db2)"
        by (cases ds)
      from G r3 ds have
        bw: "bindE (dscores_of P n y) (\<lambda>ds. backward Xv W1 W2 Hid ds reg) =
          Inr (Map.empty(''W1'' \<mapsto> arrays h3 ! dW1, ''b1'' \<mapsto> arrays h3 ! db1,
                         ''W2'' \<mapsto> arrays h3 ! dW2, ''b2'' \<mapsto> arrays h3 ! db2))" and
        d3: "dicts h3 = dicts h1 @ [Map.empty]"
        by auto
      from bw obtain dsv where dsv: "dscores_of P n y = Inr dsv" and
        bwv: "backward Xv W1 W2 Hid dsv reg =
          Inr (Map.empty(''W1'' \<mapsto> arrays h3 ! dW1, ''b1'' \<mapsto> arrays h3 ! db1,
                         ''W2'' \<mapsto> arrays h3 ! dW2, ''b2'' \<mapsto> arrays h3 ! db2))"
        by (auto simp: bindE_def split: sum.splits)
      have g3: "?g < length (dicts h3)" "dicts h3 ! ?g = Map.empty"
        by (simp_all add: d3)
      from fill_grads_s_run [OF g3, of loss dW1 db1 dW2 db2] obtain h4 where
        4: "fill_grads_s ?g loss dW1 db1 dW2 db2 h3 = (Inr (LossGradsRef loss ?g), h4)" and
        a4: "arrays h4 = arrays h3" and g4: "?g < length (dicts h4)" and
        d4: "dicts h4 ! ?g =
          Map.empty(''W1'' \<mapsto> dW1, ''b1'' \<mapsto> db1, ''W2'' \<mapsto> dW2, ''b2'' \<mapsto> db2)"
        by blast
      have run: "train_s X w1 w2 hid sc y reg h = (Inr (LossGradsRef loss ?g), h4)"
        using t r3 ds 4 by simp
      have den: "denotes h4 (LossGradsRef loss ?g)
          (LossGrads (add_reg (add_reg l0 reg W1) reg W2)
            (Map.empty(''W1'' \<mapsto> arrays h3 ! dW1, ''b1'' \<mapsto> arrays h3 ! db1,
                       ''W2'' \<mapsto> arrays h3 ! dW2, ''b2'' \<mapsto> arrays h3 ! db2)))"
        using g4 by (simp add: denotes_def d4 deref_upd deref_empty a4 loss)
      show ?thesis
        unfolding run using P l0 dsv bwv den n by simp
    qed
  qed
qed

lemma unpack_s_run:
  assumes "model < length (dicts h)"
    "(dicts h ! model) ''W1'' = Some w1" "(dicts h ! model) ''b1'' = Some v1"
    "(dicts h ! model) ''W2'' = Some w2" "(dicts h ! model) ''b2'' = Some v2"
  shows "unpack_s model h = (Inr (w1, v1, w2, v2), h)"
  using assms by (simp add: unpack_s_def bindS_def dict_get_def returnS_def)

lemma stored_inputs_params:
  "stored_inputs h X model Xv W1 b1 W2 b2 \<Longrightarrow>
   params (deref h (dicts h ! model)) W1 b1 W2 b2"
  by (auto simp: stored_inputs_def params_def deref_def holds_mat_def holds_vec_def)

theorem two_layer_net_s_agrees:
  assumes st: "stored_inputs h X model Xv W1 b1 W2 b2"
    and run: "two_layer_net_s X model y reg h = (r, h')"
  shows "case r of
      Inl e \<Rightarrow> two_layer_net Xv (deref h (dicts h ! model)) y reg = Inl e
    | Inr v \<Rightarrow>
        (\<exists>res. two_layer_net Xv (deref h (dicts h ! model)) y reg = Inr res \<and> denotes h' v res)"
proof -
  from st obtain w1 v1 w2 v2 where
    X: "holds_mat h X Xv" and m: "model < length (dicts h)" and
    k: "(dicts h ! model) ''W1'' = Some w1" "(dicts h ! model) ''b1'' = Some v1"
      "(dicts h ! model) ''W2'' = Some w2" "(dicts h ! model) ''b2'' = Some v2" and
    w1: "holds_mat h w1 W1" and v1: "holds_vec h v1 b1" and
    w2: "holds_mat h w2 W2" and v2: "holds_vec h v2 b2"
    by (auto simp: stored_inputs_def)
  have pure: "two_layer_net Xv (deref h (dicts h ! model)) y reg =
      two_layer_net_arrays Xv W1 b1 W2 b2 y reg"
    by (rule two_layer_net_params [OF stored_inputs_params [OF st]])
  obtain rf hf where f: "forward_s X w1 v1 w2 v2 h = (rf, hf)"
    by (cases "forward_s X w1 v1 w2 v2 h")
  note F = forward_s_run [OF X w1 v1 w2 v2, unfolded f, simplified]
  have gX: "get_mat X h = (Inr Xv, h)"
    using X by (simp add: get_mat_def holds_mat_def)
  have top: "two_layer_net_s X model y reg h =
      (case rf of Inl e \<Rightarrow> (Inl e, hf)
       | Inr (hid, sc) \<Rightarrow>
          (case y of None \<Rightarrow> (Inr (ScoresRef sc), hf)
           | Some y' \<Rightarrow> train_s X w1 w2 hid sc y' reg hf))"
    using f gX
    by (simp add: two_layer_net_s_def bindS_def unpack_s_run [OF m k] returnS_def
        split: sum.splits option.splits)
  show ?thesis
  proof (cases rf)
    case (Inl e)
    with F top run show ?thesis
      unfolding pure by (auto simp: two_layer_net_arrays_def bindE_def split: sum.splits)
  next
    case (Inr hs)
    obtain hid sc where hs: "hs = (hid, sc)"
      by (cases hs)
    from F Inr hs obtain Hid Sc where
      H: "hidden_layer Xv W1 b1 = Inr Hid" and S: "output_layer Hid W2 b2 = Inr Sc" and
      hid: "holds_mat hf hid Hid" and sc: "holds_mat hf sc Sc" and
      pre: "prefix (arrays h) (arrays hf)"
      by auto
    show ?thesis
    proof (cases y)
      case None
      with top Inr hs run have "r = Inr (ScoresRef sc)" "h' = hf"
        by simp_all
      with None H S sc show ?thesis
        unfolding pure by (simp add: two_layer_net_arrays_def denotes_def)
    next
      case (Some y')
      have t: "train_s X w1 w2 hid sc y' reg hf = (r, h')"
        using top Inr hs Some run by simp
      note T = train_s_run [OF holds_mat_prefix [OF X pre] holds_mat_prefix [OF w1 pre]
          holds_mat_prefix [OF w2 pre] hid sc, of y' reg, unfolded t, simplified]
      show ?thesis
      proof (cases r)
        case (Inl e)
        with T H S Some show ?thesis
          unfolding pure
          by (auto simp: two_layer_net_arrays_def bindE_def Let_def split: sum.splits)
      next
        case r: (Inr v)
        with T H S Some show ?thesis
          unfolding pure by (auto simp: two_layer_net_arrays_def Let_def)
      qed
    qed
  qed
qed

lemma ex_stored: "stored_inputs ex_store 0 0 ex_X ex_W1 ex_b1 ex_W2 ex_b2"
  by (simp add: stored_inputs_def ex_store_def holds_mat_def holds_vec_def)

lemma ex_store_run:
  "\<exists>loss g. fst (two_layer_net_s 0 0 (Some [0, 1]) (1 / 10) ex_store) = Inr (LossGradsRef loss g)"
proof -
  let ?run = "two_layer_net_s 0 0 (Some [0, 1]) (1 / 10) ex_store"
  have len: "length [0, 1 :: int] = nrows ex_X"
    by simp
  have inb: "list_all (in_bounds (ncols ex_W2)) [0, 1]"
    by (simp add: in_bounds_def)
  obtain loss grads where pure:
    "two_layer_net ex_X (deref ex_store (dicts ex_store ! 0)) (Some [0, 1]) (1 / 10) =
      Inr (LossGrads loss grads)"
    using inb
    by (simp add: two_layer_net_params [OF stored_inputs_params [OF ex_stored]]
        two_layer_net_arrays_train [OF ex_consistent len])
  have run: "?run = (fst ?run, snd ?run)"
    by simp
  note A = two_layer_net_s_agrees [OF ex_stored run]
  show ?thesis
  proof (cases "fst ?run")
    case (Inl e)
    with A pure show ?thesis by simp
  next
    case (Inr v)
    with A pure show ?thesis
      by (cases v) (auto simp: denotes_def)
  qed
qed

lemma forward_s_allocates:
  "dicts (snd (forward_s X W1 b1 W2 b2 h)) = dicts h \<and>
   length (arrays (snd (forward_s X W1 b1 W2 b2 h))) \<le> length (arrays h) + 5"
  by (simp add: forward_s_def run_defs split: sum.splits ndarray.splits prod.splits)

lemma inference_allocates_forward_only:
  "dicts (snd (two_layer_net_s X model None reg h)) = dicts h \<and>
   length (arrays (snd (two_layer_net_s X model None reg h))) \<le> length (arrays h) + 5"
proof -
  have u: "snd (unpack_s model h) = h"
    by (simp add: unpack_s_def bindS_def dict_get_def returnS_def split: option.splits)
  have g: "snd (get_mat X h) = h"
    by (simp add: get_mat_def split: ndarray.splits)
  have "snd (two_layer_net_s X model None reg h) = h \<or>
      (\<exists>W1 b1 W2 b2. snd (two_layer_net_s X model None reg h) = snd (forward_s X W1 b1 W2 b2 h))"
    using u g
    by (auto simp: two_layer_net_s_def bindS_def returnS_def split: prod.splits sum.splits)
      (metis snd_conv)+
  then show ?thesis
    using forward_s_allocates by auto
qed

section \<open>The claims\<close>

text \<open>
  C1. With labels given, valid and the shapes consistent, \<open>two_layer_net\<close> returns the loss
  \<open>(\<Sum>i<N. - ln (P i (y i))) / N + 0.5 \<cdot> reg \<cdot> \<Sum> W1\<^sup>2 + 0.5 \<cdot> reg \<cdot> \<Sum> W2\<^sup>2\<close>, where \<open>P\<close> is the
  class probability matrix the code computes: each row of the scores exponentiated and divided
  by its sum, with no row maximum subtracted. Neither \<open>b1\<close> nor \<open>b2\<close> occurs in the
  regularization terms. For an empty batch the mean is \<open>0 / 0\<close> and the loss is \<open>nan\<close>.
\<close>

theorem loss_is_mean_cross_entropy_plus_l2:
  assumes "consistent X W1 b1 W2 b2" "params model W1 b1 W2 b2"
    "valid_labels (nrows X) (ncols W2) y"
  shows "\<exists>hidden scores P grads.
     hidden_layer X W1 b1 = Inr hidden \<and> output_layer hidden W2 b2 = Inr scores \<and>
     softmax_probs scores = Inr P \<and>
     (\<forall>i<nrows X. \<forall>c<ncols W2.
        entry P i c = exp (entry scores i c) / (\<Sum>k<ncols W2. exp (entry scores i k))) \<and>
     two_layer_net X model (Some y) reg =
       Inr (LossGrads
         (if nrows X = 0 then None
          else Some ((\<Sum>i<nrows X. - ln (entry P i (nat (y ! i)))) / real (nrows X)
                 + 0.5 * reg * (\<Sum>d<nrows W1. \<Sum>h<ncols W1. (entry W1 d h)\<^sup>2)
                 + 0.5 * reg * (\<Sum>h<nrows W2. \<Sum>c<ncols W2. (entry W2 h c)\<^sup>2)))
         grads)"
proof -
  let ?N = "nrows X" and ?C = "ncols W2"
  let ?s = "spec_scores X W1 b1 W2 b2"
  let ?P = "spec_probs ?C ?s"
  have sh: "nrows W1 = ncols X" "length b1 = ncols W1" "nrows W2 = ncols W1"
    "length b2 = ncols W2"
    using assms(1) by (simp_all add: consistent_def)
  have len: "length y = ?N"
    using assms(3) by (simp add: valid_labels_def)
  have 1: "hidden_layer X W1 b1 = Inr (mk_matrix ?N (ncols W1) (spec_hidden X W1 b1))"
    using sh by (simp add: hidden_layer_consistent)
  have 2: "output_layer (mk_matrix ?N (ncols W1) (spec_hidden X W1 b1)) W2 b2 =
      Inr (mk_matrix ?N ?C ?s)"
    using sh by (simp add: output_layer_consistent)
  have 3: "softmax_probs (mk_matrix ?N ?C ?s) = Inr (mk_matrix ?N ?C ?P)"
    by (rule softmax_probs_mk)
  have 4: "\<forall>i<?N. \<forall>c<?C. entry (mk_matrix ?N ?C ?P) i c =
      exp (entry (mk_matrix ?N ?C ?s) i c) / (\<Sum>k<?C. exp (entry (mk_matrix ?N ?C ?s) i k))"
    by (simp add: spec_probs_def)
  have dl: "spec_data_loss ?N ?C ?P y =
      (\<Sum>i<?N. - ln (entry (mk_matrix ?N ?C ?P) i (nat (y ! i)))) / real ?N"
    unfolding spec_data_loss_def
    using valid_labels_norm_index [OF assms(3)] by simp
  have 5: "two_layer_net X model (Some y) reg =
      Inr (LossGrads
        (if ?N = 0 then None
         else Some ((\<Sum>i<?N. - ln (entry (mk_matrix ?N ?C ?P) i (nat (y ! i)))) / real ?N
                + 0.5 * reg * (\<Sum>d<nrows W1. \<Sum>h<ncols W1. (entry W1 d h)\<^sup>2)
                + 0.5 * reg * (\<Sum>h<nrows W2. \<Sum>c<ncols W2. (entry W2 h c)\<^sup>2)))
        (spec_grads X W1 W2 (spec_hidden X W1 b1) (spec_dscores ?N ?C ?P y) reg))"
    using valid_labels_in_bounds [OF assms(3)]
    by (simp add: two_layer_net_params [OF assms(2)] two_layer_net_arrays_train [OF assms(1) len]
        dl [symmetric] spec_sumsq_def)
  from 1 2 3 4 5 show ?thesis by blast
qed

theorem loss_is_mean_cross_entropy_plus_l2_witness:
  "consistent zero_X zero_W1 [0] zero_W2 [0, 0] \<and> params zero_model zero_W1 [0] zero_W2 [0, 0] \<and>
   valid_labels 1 2 [1] \<and>
   (\<exists>grads. two_layer_net zero_X zero_model (Some [1]) 3 = Inr (LossGrads (Some (ln 2)) grads))"
proof -
  have v: "valid_labels (nrows zero_X) (ncols zero_W2) [1]"
    by (simp add: valid_labels_def)
  from loss_is_mean_cross_entropy_plus_l2 [OF zero_consistent zero_params v, of 3]
  obtain hidden scores P grads where
    h: "hidden_layer zero_X zero_W1 [0] = Inr hidden" and
    s: "output_layer hidden zero_W2 [0, 0] = Inr scores" and
    P: "\<forall>i<nrows zero_X. \<forall>c<ncols zero_W2.
        entry P i c = exp (entry scores i c) / (\<Sum>k<ncols zero_W2. exp (entry scores i k))" and
    r: "two_layer_net zero_X zero_model (Some [1]) 3 =
       Inr (LossGrads
         (if nrows zero_X = 0 then None
          else Some ((\<Sum>i<nrows zero_X. - ln (entry P i (nat ([1] ! i)))) / real (nrows zero_X)
                 + 0.5 * 3 * (\<Sum>d<nrows zero_W1. \<Sum>h<ncols zero_W1. (entry zero_W1 d h)\<^sup>2)
                 + 0.5 * 3 * (\<Sum>h<nrows zero_W2. \<Sum>c<ncols zero_W2. (entry zero_W2 h c)\<^sup>2)))
         grads)"
    by blast
  have hid: "hidden = mk_matrix 1 1 (\<lambda>i j. 0)"
    using h hidden_layer_consistent [of zero_W1 zero_X "[0]"]
    by (auto simp: spec_hidden_def spec_pre_def zero_X_def zero_W1_def entry_def
        intro!: mk_matrix_cong)
  have sc: "entry scores 0 0 = 0" "entry scores 0 (Suc 0) = 0"
    using s unfolding hid
    by (auto simp: output_layer_def np_dot_def np_add_vec_consistent zero_W2_def entry_def
        mk_matrix_def)
  have p: "entry P 0 (Suc 0) = 1 / 2"
    using P sc by (simp add: lessThan_Suc numeral_2_eq_2)
  have sq: "(\<Sum>d<nrows zero_W1. \<Sum>h<ncols zero_W1. (entry zero_W1 d h)\<^sup>2) = 0"
    "(\<Sum>h<nrows zero_W2. \<Sum>c<ncols zero_W2. (entry zero_W2 h c)\<^sup>2) = 0"
    by (simp_all add: zero_W1_def zero_W2_def entry_def lessThan_Suc numeral_2_eq_2)
  have l: "- ln (1 / 2 :: real) = ln 2"
    by (simp add: ln_div)
  have "two_layer_net zero_X zero_model (Some [1]) 3 = Inr (LossGrads (Some (ln 2)) grads)"
    unfolding r sq by (simp add: p l)
  then show ?thesis
    using zero_consistent zero_params by (auto simp: valid_labels_def)
qed

text \<open>
  C2. With labels given, valid and the shapes consistent, the gradients returned by
  \<open>two_layer_net\<close> are, in terms of the values the code computes on the way (the hidden
  activation, the class probabilities \<open>P\<close> and \<open>dscores\<close>):
  \<open>dscores = (P - onehot(y)) / N\<close>; \<open>dW2 = hidden\<^sup>T \<cdot> dscores + reg \<cdot> W2\<close>; \<open>db2\<close> the column sums
  of \<open>dscores\<close>; \<open>dHidden = dscores \<cdot> W2\<^sup>T\<close> with the entries zeroed where the hidden activation
  is not positive, which is where the pre-activation \<open>X \<cdot> W1 + b1\<close> is not positive;
  \<open>dW1 = X\<^sup>T \<cdot> dHidden + reg \<cdot> W1\<close>; \<open>db1\<close> the column sums of \<open>dHidden\<close>. The gradient dictionary
  has exactly the four keys, and each gradient has the shape of its parameter.
\<close>

theorem gradients_are_analytic:
  assumes "consistent X W1 b1 W2 b2" "params model W1 b1 W2 b2"
    "valid_labels (nrows X) (ncols W2) y"
  shows "\<exists>hidden scores P dscores loss dW1 db1 dW2 db2.
     hidden_layer X W1 b1 = Inr hidden \<and> output_layer hidden W2 b2 = Inr scores \<and>
     softmax_probs scores = Inr P \<and> dscores_of P (nrows X) y = Inr dscores \<and>
     two_layer_net X model (Some y) reg =
       Inr (LossGrads loss (Map.empty(''W1'' \<mapsto> Mat dW1, ''b1'' \<mapsto> Vec db1,
                                       ''W2'' \<mapsto> Mat dW2, ''b2'' \<mapsto> Vec db2))) \<and>
     wf_matrix dscores \<and> nrows dscores = nrows X \<and> ncols dscores = ncols W2 \<and>
     (\<forall>i<nrows X. \<forall>c<ncols W2.
        entry dscores i c = (entry P i c - (if int c = y ! i then 1 else 0)) / real (nrows X)) \<and>
     wf_matrix dW2 \<and> nrows dW2 = nrows W2 \<and> ncols dW2 = ncols W2 \<and>
     (\<forall>h<nrows W2. \<forall>c<ncols W2.
        entry dW2 h c = (\<Sum>i<nrows X. entry hidden i h * entry dscores i c) + reg * entry W2 h c) \<and>
     length db2 = ncols W2 \<and>
     (\<forall>c<ncols W2. db2 ! c = (\<Sum>i<nrows X. entry dscores i c)) \<and>
     wf_matrix dW1 \<and> nrows dW1 = nrows W1 \<and> ncols dW1 = ncols W1 \<and>
     (\<forall>d<nrows W1. \<forall>h<ncols W1.
        entry dW1 d h =
          (\<Sum>i<nrows X. entry X i d *
              spec_dhidden (ncols W2) W2 (entry hidden) (entry dscores) i h)
          + reg * entry W1 d h) \<and>
     length db1 = ncols W1 \<and>
     (\<forall>h<ncols W1. db1 ! h =
        (\<Sum>i<nrows X. spec_dhidden (ncols W2) W2 (entry hidden) (entry dscores) i h)) \<and>
     (\<forall>i<nrows X. \<forall>h<ncols W1.
        (entry hidden i h \<le> 0 \<longleftrightarrow>
           (\<Sum>d<ncols X. entry X i d * entry W1 d h) + b1 ! h \<le> 0))"
proof -
  let ?N = "nrows X" and ?C = "ncols W2" and ?H = "ncols W1"
  let ?s = "spec_scores X W1 b1 W2 b2"
  let ?hid = "spec_hidden X W1 b1"
  let ?P = "spec_probs ?C ?s"
  let ?ds = "spec_dscores ?N ?C ?P y"
  let ?dh = "spec_dhidden ?C W2 ?hid ?ds"
  let ?Mh = "mk_matrix ?N ?H ?hid" and ?Ms = "mk_matrix ?N ?C ?s"
  let ?MP = "mk_matrix ?N ?C ?P" and ?Md = "mk_matrix ?N ?C ?ds"
  have sh: "nrows W1 = ncols X" "length b1 = ncols W1" "nrows W2 = ncols W1"
    "length b2 = ncols W2"
    using assms(1) by (simp_all add: consistent_def)
  have len: "length y = ?N"
    using assms(3) by (simp add: valid_labels_def)
  have inb: "list_all (in_bounds ?C) y"
    by (rule valid_labels_in_bounds [OF assms(3)])
  have lab: "\<And>i c. i < ?N \<Longrightarrow> c = norm_index ?C (y ! i) \<longleftrightarrow> int c = y ! i"
    using assms(3) by (auto simp: valid_labels_def norm_index_def list_all_length)
  have 1: "hidden_layer X W1 b1 = Inr ?Mh"
    using sh by (simp add: hidden_layer_consistent)
  have 2: "output_layer ?Mh W2 b2 = Inr ?Ms"
    using sh by (simp add: output_layer_consistent)
  have 3: "softmax_probs ?Ms = Inr ?MP"
    by (rule softmax_probs_mk)
  have 4: "dscores_of ?MP ?N y = Inr ?Md"
    using inb len by (auto simp: dscores_of_range spec_dscores_def intro!: mk_matrix_cong)
  have dh: "\<And>i h. i < ?N \<Longrightarrow> h < ?H \<Longrightarrow>
      spec_dhidden ?C W2 (entry ?Mh) (entry ?Md) i h = ?dh i h"
    by (simp add: spec_dhidden_def)
  obtain loss where 5: "two_layer_net X model (Some y) reg =
      Inr (LossGrads loss (spec_grads X W1 W2 ?hid ?ds reg))"
    using inb
    by (simp add: two_layer_net_params [OF assms(2)] two_layer_net_arrays_train [OF assms(1) len])
  let ?dW1 = "mk_matrix (ncols X) ?H
      (\<lambda>d h. (\<Sum>i<?N. entry X i d * ?dh i h) + reg * entry W1 d h)"
  let ?db1 = "map (\<lambda>h. \<Sum>i<?N. ?dh i h) [0..<?H]"
  let ?dW2 = "mk_matrix ?H ?C (\<lambda>h c. (\<Sum>i<?N. ?hid i h * ?ds i c) + reg * entry W2 h c)"
  let ?db2 = "map (\<lambda>c. \<Sum>i<?N. ?ds i c) [0..<?C]"
  have 6: "spec_grads X W1 W2 ?hid ?ds reg =
      Map.empty(''W1'' \<mapsto> Mat ?dW1, ''b1'' \<mapsto> Vec ?db1, ''W2'' \<mapsto> Mat ?dW2, ''b2'' \<mapsto> Vec ?db2)"
    by (simp add: spec_grads_def)
  have 7: "\<forall>i<?N. \<forall>c<?C.
      entry ?Md i c = (entry ?MP i c - (if int c = y ! i then 1 else 0)) / real ?N"
    using lab by (simp add: spec_dscores_def)
  have 8: "\<forall>h<nrows W2. \<forall>c<?C.
      entry ?dW2 h c = (\<Sum>i<?N. entry ?Mh i h * entry ?Md i c) + reg * entry W2 h c"
    using sh by simp
  have 9: "\<forall>c<?C. ?db2 ! c = (\<Sum>i<?N. entry ?Md i c)"
    by simp
  have 10: "\<forall>d<nrows W1. \<forall>h<?H. entry ?dW1 d h =
      (\<Sum>i<?N. entry X i d * spec_dhidden ?C W2 (entry ?Mh) (entry ?Md) i h) + reg * entry W1 d h"
    using sh dh by simp
  have 11: "\<forall>h<?H. ?db1 ! h = (\<Sum>i<?N. spec_dhidden ?C W2 (entry ?Mh) (entry ?Md) i h)"
    using dh by simp
  have 12: "\<forall>i<?N. \<forall>h<?H. (entry ?Mh i h \<le> 0 \<longleftrightarrow>
      (\<Sum>d<ncols X. entry X i d * entry W1 d h) + b1 ! h \<le> 0)"
    by (simp add: relu_gate_pre) (simp add: spec_pre_def)
  show ?thesis
    apply (rule exI [of _ ?Mh], rule exI [of _ ?Ms], rule exI [of _ ?MP], rule exI [of _ ?Md])
    apply (rule exI [of _ loss], rule exI [of _ ?dW1], rule exI [of _ ?db1])
    apply (rule exI [of _ ?dW2], rule exI [of _ ?db2])
    unfolding 6 [symmetric]
    using 1 2 3 4 5 7 8 9 10 11 12 sh
    apply (intro conjI)
    apply simp_all
    done
qed

theorem gradients_are_analytic_witness:
  "consistent ex_X ex_W1 ex_b1 ex_W2 ex_b2 \<and> params ex_model ex_W1 ex_b1 ex_W2 ex_b2 \<and>
   valid_labels 2 2 [0, 1] \<and>
   (\<exists>loss dW1 db1 dW2 db2.
      two_layer_net ex_X ex_model (Some [0, 1]) (1 / 10) =
        Inr (LossGrads loss (Map.empty(''W1'' \<mapsto> Mat dW1, ''b1'' \<mapsto> Vec db1,
                                        ''W2'' \<mapsto> Mat dW2, ''b2'' \<mapsto> Vec db2))) \<and>
      nrows dW1 = 2 \<and> ncols dW1 = 3 \<and> length db1 = 3 \<and>
      nrows dW2 = 3 \<and> ncols dW2 = 2 \<and> length db2 = 2)"
proof -
  have v: "valid_labels (nrows ex_X) (ncols ex_W2) [0, 1]"
    by (simp add: valid_labels_def)
  from gradients_are_analytic [OF ex_consistent ex_params v, of "1 / 10"]
  obtain loss dW1 db1 dW2 db2 where
    "two_layer_net ex_X ex_model (Some [0, 1]) (1 / 10) =
       Inr (LossGrads loss (Map.empty(''W1'' \<mapsto> Mat dW1, ''b1'' \<mapsto> Vec db1,
                                       ''W2'' \<mapsto> Mat dW2, ''b2'' \<mapsto> Vec db2)))"
    "nrows dW1 = nrows ex_W1" "ncols dW1 = ncols ex_W1" "length db1 = ncols ex_W1"
    "nrows dW2 = nrows ex_W2" "ncols dW2 = ncols ex_W2" "length db2 = ncols ex_W2"
    by blast
  then show ?thesis
    using ex_consistent ex_params v by auto
qed

text \<open>
  C3. For every input batch \<open>X\<close> of shape \<open>(N, D)\<close> and parameters of consistent shapes, the
  forward pass (lines 80 and 83) succeeds and computes
  \<open>scores = max(0, X\<cdot>W1 + b1)\<cdot>W2 + b2\<close>, each bias added to every one of the \<open>N\<close> rows; the
  scores matrix is well formed and has shape \<open>(N, C)\<close>.
\<close>

theorem forward_pass_scores:
  assumes "consistent X W1 b1 W2 b2"
  shows "\<exists>hidden scores.
      hidden_layer X W1 b1 = Inr hidden \<and> output_layer hidden W2 b2 = Inr scores \<and>
      wf_matrix scores \<and> nrows scores = nrows X \<and> ncols scores = ncols W2 \<and>
      (\<forall>i<nrows X. \<forall>c<ncols W2. entry scores i c =
         (\<Sum>h<ncols W1. max 0 ((\<Sum>d<ncols X. entry X i d * entry W1 d h) + b1 ! h) * entry W2 h c)
           + b2 ! c)"
  using assms hidden_layer_consistent [of W1 X b1] output_layer_consistent [of W2 W1 b2 X b1]
  by (simp add: consistent_def spec_scores_def spec_hidden_def spec_pre_def)

theorem forward_pass_scores_witness:
  "consistent ex_X ex_W1 ex_b1 ex_W2 ex_b2 \<and>
   (\<exists>hidden scores.
      hidden_layer ex_X ex_W1 ex_b1 = Inr hidden \<and> output_layer hidden ex_W2 ex_b2 = Inr scores \<and>
      nrows scores = 2 \<and> ncols scores = 2)"
proof -
  from forward_pass_scores [OF ex_consistent] obtain hidden scores where
    "hidden_layer ex_X ex_W1 ex_b1 = Inr hidden" "output_layer hidden ex_W2 ex_b2 = Inr scores"
    "nrows scores = nrows ex_X" "ncols scores = ncols ex_W2"
    by blast
  then show ?thesis
    using ex_consistent by auto
qed

text \<open>
  C4. When \<open>y\<close> is absent, \<open>two_layer_net\<close> returns the scores matrix of the forward pass and
  nothing else: the result is a \<open>Scores\<close> value of shape \<open>(N, C)\<close>, not a loss with gradients,
  and it is the same matrix for every value of \<open>reg\<close>. On a store, a call without labels
  creates no dictionary and at most five arrays, those of the forward pass: nothing of the
  loss or of the gradients is computed. (Lines 65 to 69 of the docstring say "If y is not
  passed" of the tuple of loss and gradients too; lines 56 to 58 and 62 of it, and the code,
  return the scores then.)
\<close>

theorem inference_returns_scores_only:
  assumes "consistent X W1 b1 W2 b2" "params model W1 b1 W2 b2"
  shows "\<exists>hidden scores.
      hidden_layer X W1 b1 = Inr hidden \<and> output_layer hidden W2 b2 = Inr scores \<and>
      wf_matrix scores \<and> nrows scores = nrows X \<and> ncols scores = ncols W2 \<and>
      (\<forall>reg. two_layer_net X model None reg = Inr (Scores scores)) \<and>
      (\<forall>reg h Xa ma.
         dicts (snd (two_layer_net_s Xa ma None reg h)) = dicts h \<and>
         length (arrays (snd (two_layer_net_s Xa ma None reg h))) \<le> length (arrays h) + 5)"
proof -
  let ?hid = "mk_matrix (nrows X) (ncols W1) (spec_hidden X W1 b1)"
  let ?sc = "mk_matrix (nrows X) (ncols W2) (spec_scores X W1 b1 W2 b2)"
  have sh: "nrows W1 = ncols X" "length b1 = ncols W1" "nrows W2 = ncols W1"
    "length b2 = ncols W2"
    using assms(1) by (simp_all add: consistent_def)
  have "hidden_layer X W1 b1 = Inr ?hid" "output_layer ?hid W2 b2 = Inr ?sc"
    using sh by (simp_all add: hidden_layer_consistent output_layer_consistent)
  moreover have "\<forall>reg. two_layer_net X model None reg = Inr (Scores ?sc)"
    by (simp add: two_layer_net_params [OF assms(2)] two_layer_net_arrays_inference [OF assms(1)])
  ultimately show ?thesis
    by (intro exI [of _ ?hid] exI [of _ ?sc]) (simp add: inference_allocates_forward_only)
qed

theorem inference_returns_scores_only_witness:
  "consistent ex_X ex_W1 ex_b1 ex_W2 ex_b2 \<and> params ex_model ex_W1 ex_b1 ex_W2 ex_b2 \<and>
   (\<exists>scores. nrows scores = 2 \<and> ncols scores = 2 \<and>
      two_layer_net ex_X ex_model None 0 = Inr (Scores scores) \<and>
      two_layer_net ex_X ex_model None 5 = Inr (Scores scores)) \<and>
   dicts (snd (two_layer_net_s 0 0 None 0 ex_store)) = dicts ex_store"
proof -
  from inference_returns_scores_only [OF ex_consistent ex_params] obtain scores where
    "nrows scores = nrows ex_X" "ncols scores = ncols ex_W2"
    "\<forall>reg. two_layer_net ex_X ex_model None reg = Inr (Scores scores)"
    "\<forall>reg h Xa ma. dicts (snd (two_layer_net_s Xa ma None reg h)) = dicts h \<and>
       length (arrays (snd (two_layer_net_s Xa ma None reg h))) \<le> length (arrays h) + 5"
    by (elim exE conjE) (rule that, assumption+)
  then show ?thesis
    using ex_consistent ex_params by auto
qed

text \<open>
  C5. For positive \<open>D\<close>, \<open>H\<close>, \<open>C\<close> the initializer succeeds and returns a dictionary with
  exactly the keys \<open>W1\<close>, \<open>b1\<close>, \<open>W2\<close>, \<open>b2\<close>, of shapes \<open>(D, H)\<close>, \<open>(H,)\<close>, \<open>(H, C)\<close>, \<open>(C,)\<close>; the
  biases are zero, and each entry of \<open>W1\<close> and \<open>W2\<close> is \<open>0.00001\<close> times a draw of the generator,
  a different draw for each entry: entry \<open>(d, h)\<close> of \<open>W1\<close> takes draw \<open>d \<cdot> H + h\<close>, entry
  \<open>(h, c)\<close> of \<open>W2\<close> takes draw \<open>D \<cdot> H + h \<cdot> C + c\<close>, and the generator is left after the
  \<open>D \<cdot> H + H \<cdot> C\<close> draws taken. That the draws are independent and standard normal is a
  property of numpy's generator, which is a parameter here.
\<close>

theorem init_model_shapes:
  assumes "0 < D" "0 < H" "0 < C"
  shows "\<exists>model W1 b1 W2 b2.
     init_two_layer_model D H C g = Inr (model, (\<lambda>k. g (k + nat D * nat H + nat H * nat C))) \<and>
     dom model = {''W1'', ''b1'', ''W2'', ''b2''} \<and> params model W1 b1 W2 b2 \<and>
     wf_matrix W1 \<and> nrows W1 = nat D \<and> ncols W1 = nat H \<and> length b1 = nat H \<and>
     wf_matrix W2 \<and> nrows W2 = nat H \<and> ncols W2 = nat C \<and> length b2 = nat C \<and>
     (\<forall>h<nat H. b1 ! h = 0) \<and> (\<forall>c<nat C. b2 ! c = 0) \<and>
     (\<forall>d<nat D. \<forall>h<nat H. entry W1 d h = 0.00001 * g (d * nat H + h)) \<and>
     (\<forall>h<nat H. \<forall>c<nat C. entry W2 h c = 0.00001 * g (nat D * nat H + (h * nat C + c))) \<and>
     (\<forall>d<nat D. \<forall>h<nat H. d * nat H + h < nat D * nat H) \<and>
     (\<forall>d<nat D. \<forall>h<nat H. \<forall>d'<nat D. \<forall>h'<nat H.
        d * nat H + h = d' * nat H + h' \<longrightarrow> d = d' \<and> h = h') \<and>
     (\<forall>h<nat H. \<forall>c<nat C. \<forall>h'<nat H. \<forall>c'<nat C.
        h * nat C + c = h' * nat C + c' \<longrightarrow> h = h' \<and> c = c')"
proof -
  let ?W1 = "np_scale 0.00001 (mk_matrix (nat D) (nat H) (\<lambda>i j. g (i * nat H + j)))"
  let ?W2 = "np_scale 0.00001 (mk_matrix (nat H) (nat C)
      (\<lambda>i j. g (i * nat C + j + nat D * nat H)))"
  let ?b1 = "replicate (nat H) (0::real)" and ?b2 = "replicate (nat C) (0::real)"
  let ?model = "Map.empty(''W1'' \<mapsto> Mat ?W1, ''b1'' \<mapsto> Vec ?b1, ''W2'' \<mapsto> Mat ?W2, ''b2'' \<mapsto> Vec ?b2)"
  have run: "init_two_layer_model D H C g =
      Inr (?model, (\<lambda>k. g (k + nat D * nat H + nat H * nat C)))"
    using assms
    by (simp add: init_two_layer_model_def np_random_randn_def np_zeros_def add_ac)
  have dom: "dom ?model = {''W1'', ''b1'', ''W2'', ''b2''}"
    by auto
  have par: "params ?model ?W1 ?b1 ?W2 ?b2"
    by (simp add: params_def)
  have shp: "wf_matrix ?W1" "nrows ?W1 = nat D" "ncols ?W1 = nat H" "length ?b1 = nat H"
    "wf_matrix ?W2" "nrows ?W2 = nat H" "ncols ?W2 = nat C" "length ?b2 = nat C"
    by (simp_all add: np_scale_def)
  have z: "\<forall>h<nat H. ?b1 ! h = 0" "\<forall>c<nat C. ?b2 ! c = 0"
    by simp_all
  have e1: "\<forall>d<nat D. \<forall>h<nat H. entry ?W1 d h = 0.00001 * g (d * nat H + h)"
    by (simp add: np_scale_def)
  have e2: "\<forall>h<nat H. \<forall>c<nat C. entry ?W2 h c = 0.00001 * g (nat D * nat H + (h * nat C + c))"
    by (simp add: np_scale_def add.commute)
  have pos: "d * n + h < m * n" if "d < m" "h < n" for d h m n :: nat
  proof -
    have "d * n + h < d * n + n" using that by simp
    also have "\<dots> = Suc d * n" by simp
    also have "\<dots> \<le> m * n" using that by (intro mult_le_mono1) simp
    finally show ?thesis .
  qed
  have inj: "d = d' \<and> h = h'" if "h < n" "h' < n" "d * n + h = d' * n + h'" for d h d' h' n :: nat
  proof -
    have "(d * n + h) div n = d" "(d' * n + h') div n = d'"
      using that(1,2) by simp_all
    with that(3) have "d = d'"
      by metis
    with that(3) show ?thesis
      by simp
  qed
  have 1: "\<forall>d<nat D. \<forall>h<nat H. d * nat H + h < nat D * nat H"
    using pos by blast
  have 2: "\<forall>d<nat D. \<forall>h<nat H. \<forall>d'<nat D. \<forall>h'<nat H.
      d * nat H + h = d' * nat H + h' \<longrightarrow> d = d' \<and> h = h'"
    using inj by blast
  have 3: "\<forall>h<nat H. \<forall>c<nat C. \<forall>h'<nat H. \<forall>c'<nat C.
      h * nat C + c = h' * nat C + c' \<longrightarrow> h = h' \<and> c = c'"
    using inj by blast
  show ?thesis
    apply (rule exI [of _ ?model], rule exI [of _ ?W1], rule exI [of _ ?b1])
    apply (rule exI [of _ ?W2], rule exI [of _ ?b2])
    using run dom par shp z e1 e2 1 2 3 by (intro conjI) assumption+
qed

theorem init_model_shapes_witness:
  "(0::int) < 2 \<and> (0::int) < 3 \<and>
   (\<exists>model W1 b1 W2 b2 g'.
      init_two_layer_model 2 3 2 (\<lambda>k. real k) = Inr (model, g') \<and>
      dom model = {''W1'', ''b1'', ''W2'', ''b2''} \<and> params model W1 b1 W2 b2 \<and>
      nrows W1 = 2 \<and> ncols W1 = 3 \<and> length b1 = 3 \<and>
      nrows W2 = 3 \<and> ncols W2 = 2 \<and> length b2 = 2 \<and>
      b1 ! 2 = 0 \<and> b2 ! 1 = 0 \<and> entry W1 1 2 = 0.00001 * 5 \<and> entry W2 2 1 = 0.00001 * 11)"
proof -
  have p: "(0::int) < 2" "(0::int) < 3"
    by simp_all
  from init_model_shapes [OF p(1) p(2) p(1), of "\<lambda>k. real k"]
  obtain model W1 b1 W2 b2 where
    r: "init_two_layer_model 2 3 2 (\<lambda>k. real k) =
      Inr (model, (\<lambda>k. real (k + nat 2 * nat 3 + nat 3 * nat 2)))"
      "dom model = {''W1'', ''b1'', ''W2'', ''b2''}" "params model W1 b1 W2 b2"
      "nrows W1 = nat 2" "ncols W1 = nat 3" "length b1 = nat 3"
      "nrows W2 = nat 3" "ncols W2 = nat 2" "length b2 = nat 2" and
    z: "\<forall>h<nat 3. b1 ! h = 0" "\<forall>c<nat 2. b2 ! c = 0" and
    e: "\<forall>d<nat 2. \<forall>h<nat 3. entry W1 d h = 0.00001 * real (d * nat 3 + h)"
      "\<forall>h<nat 3. \<forall>c<nat 2. entry W2 h c = 0.00001 * real (nat 2 * nat 3 + (h * nat 2 + c))"
    by (elim exE conjE) (rule that, assumption+)
  have "b1 ! 2 = 0" "b2 ! 1 = 0"
    using z by simp_all
  moreover have "entry W1 1 2 = 0.00001 * 5" "entry W2 2 1 = 0.00001 * 11"
    using e(1) [rule_format, of 1 2] e(2) [rule_format, of 2 1] by simp_all
  ultimately show ?thesis
    using r by auto
qed

text \<open>
  C6, as the code has it, in exact real arithmetic. Holding \<open>X\<close>, the parameters and \<open>y\<close>
  fixed (consistent shapes, valid labels, at least one sample), the loss at \<open>reg\<close> is the data
  loss plus \<open>0.5 \<cdot> reg \<cdot> (\<parallel>W1\<parallel>\<^sup>2 + \<parallel>W2\<parallel>\<^sup>2)\<close>, where the data loss, \<open>db1\<close>, \<open>db2\<close> and the parts
  \<open>G1\<close>, \<open>G2\<close> of \<open>dW1\<close>, \<open>dW2\<close> that come from \<open>dscores\<close> do not depend on \<open>reg\<close>. A larger
  \<open>reg\<close> never gives a smaller loss, and gives a strictly larger one exactly when some weight
  is not zero. The claim's "strictly increases" fails for a network whose weights are all
  zero: there the loss is the same for every \<open>reg\<close>. All of this is about the real numbers
  the formulas denote; the sums of lines 100 to 102 in float64 are rounded, so there the
  difference need not be exact and a small enough regularization term can be absorbed.
\<close>

theorem reg_effect:
  assumes "consistent X W1 b1 W2 b2" "params model W1 b1 W2 b2"
    "valid_labels (nrows X) (ncols W2) y" "0 < nrows X"
  shows "\<exists>data G1 G2 db1 db2.
     0 \<le> spec_sumsq W1 + spec_sumsq W2 \<and>
     (\<forall>reg. \<exists>dW1 dW2.
        two_layer_net X model (Some y) reg =
          Inr (LossGrads (Some (data + 0.5 * reg * (spec_sumsq W1 + spec_sumsq W2)))
                 (Map.empty(''W1'' \<mapsto> Mat dW1, ''b1'' \<mapsto> Vec db1,
                            ''W2'' \<mapsto> Mat dW2, ''b2'' \<mapsto> Vec db2))) \<and>
        (\<forall>d<nrows W1. \<forall>h<ncols W1. entry dW1 d h = G1 d h + reg * entry W1 d h) \<and>
        (\<forall>h<nrows W2. \<forall>c<ncols W2. entry dW2 h c = G2 h c + reg * entry W2 h c)) \<and>
     (\<forall>reg reg'. reg < reg' \<longrightarrow>
        (\<exists>L L'. loss_of (two_layer_net X model (Some y) reg) = Some L \<and>
                 loss_of (two_layer_net X model (Some y) reg') = Some L' \<and>
                 L \<le> L' \<and> (L < L' \<longleftrightarrow> 0 < spec_sumsq W1 + spec_sumsq W2)))"
proof -
  let ?N = "nrows X" and ?C = "ncols W2" and ?H = "ncols W1"
  let ?hid = "spec_hidden X W1 b1"
  let ?P = "spec_probs ?C (spec_scores X W1 b1 W2 b2)"
  let ?ds = "spec_dscores ?N ?C ?P y"
  let ?dh = "spec_dhidden ?C W2 ?hid ?ds"
  let ?data = "spec_data_loss ?N ?C ?P y"
  let ?S = "spec_sumsq W1 + spec_sumsq W2"
  let ?G1 = "\<lambda>d h. \<Sum>i<?N. entry X i d * ?dh i h"
  let ?G2 = "\<lambda>h c. \<Sum>i<?N. ?hid i h * ?ds i c"
  let ?db1 = "map (\<lambda>h. \<Sum>i<?N. ?dh i h) [0..<?H]"
  let ?db2 = "map (\<lambda>c. \<Sum>i<?N. ?ds i c) [0..<?C]"
  have sh: "nrows W1 = ncols X" "nrows W2 = ncols W1"
    using assms(1) by (simp_all add: consistent_def)
  have len: "length y = ?N"
    using assms(3) by (simp add: valid_labels_def)
  have inb: "list_all (in_bounds ?C) y"
    by (rule valid_labels_in_bounds [OF assms(3)])
  have S: "0 \<le> ?S"
    by (simp add: spec_sumsq_nonneg)
  have run: "two_layer_net X model (Some y) reg =
      Inr (LossGrads (Some (?data + 0.5 * reg * ?S))
        (Map.empty(''W1'' \<mapsto> Mat (mk_matrix (ncols X) ?H (\<lambda>d h. ?G1 d h + reg * entry W1 d h)),
                   ''b1'' \<mapsto> Vec ?db1,
                   ''W2'' \<mapsto> Mat (mk_matrix ?H ?C (\<lambda>h c. ?G2 h c + reg * entry W2 h c)),
                   ''b2'' \<mapsto> Vec ?db2)))" for reg
    using inb assms(4)
    by (simp add: two_layer_net_params [OF assms(2)] two_layer_net_arrays_train [OF assms(1) len]
        spec_grads_def algebra_simps)
  have grads: "\<exists>dW1 dW2.
      two_layer_net X model (Some y) reg =
        Inr (LossGrads (Some (?data + 0.5 * reg * ?S))
               (Map.empty(''W1'' \<mapsto> Mat dW1, ''b1'' \<mapsto> Vec ?db1,
                          ''W2'' \<mapsto> Mat dW2, ''b2'' \<mapsto> Vec ?db2))) \<and>
      (\<forall>d<nrows W1. \<forall>h<?H. entry dW1 d h = ?G1 d h + reg * entry W1 d h) \<and>
      (\<forall>h<nrows W2. \<forall>c<?C. entry dW2 h c = ?G2 h c + reg * entry W2 h c)" for reg
    apply (rule exI [of _ "mk_matrix (ncols X) ?H (\<lambda>d h. ?G1 d h + reg * entry W1 d h)"])
    apply (rule exI [of _ "mk_matrix ?H ?C (\<lambda>h c. ?G2 h c + reg * entry W2 h c)"])
    using run [of reg] sh by simp
  have mono: "\<exists>L L'. loss_of (two_layer_net X model (Some y) reg) = Some L \<and>
      loss_of (two_layer_net X model (Some y) reg') = Some L' \<and>
      L \<le> L' \<and> (L < L' \<longleftrightarrow> 0 < ?S)" if "reg < reg'" for reg reg'
  proof -
    have le: "reg * ?S \<le> reg' * ?S"
      using that S by (intro mult_right_mono) simp_all
    have lt: "reg * ?S < reg' * ?S \<longleftrightarrow> 0 < ?S"
      using that S by (auto simp: mult_less_cancel_right)
    show ?thesis
      using le lt by (simp add: run loss_of_def)
  qed
  show ?thesis
    apply (rule exI [of _ ?data], rule exI [of _ ?G1], rule exI [of _ ?G2])
    apply (rule exI [of _ ?db1], rule exI [of _ ?db2])
    using S grads mono by blast
qed

theorem reg_effect_witness:
  "consistent ex_X ex_W1 ex_b1 ex_W2 ex_b2 \<and> params ex_model ex_W1 ex_b1 ex_W2 ex_b2 \<and>
   valid_labels 2 2 [0, 1] \<and>
   (\<exists>L L'. loss_of (two_layer_net ex_X ex_model (Some [0, 1]) 0) = Some L \<and>
            loss_of (two_layer_net ex_X ex_model (Some [0, 1]) 1) = Some L' \<and> L \<le> L')"
proof -
  have v: "valid_labels (nrows ex_X) (ncols ex_W2) [0, 1]"
    by (simp add: valid_labels_def)
  have n: "0 < nrows ex_X"
    by simp
  from reg_effect [OF ex_consistent ex_params v n]
  have "\<forall>reg reg'. reg < reg' \<longrightarrow>
      (\<exists>L L'. loss_of (two_layer_net ex_X ex_model (Some [0, 1]) reg) = Some L \<and>
               loss_of (two_layer_net ex_X ex_model (Some [0, 1]) reg') = Some L' \<and>
               L \<le> L' \<and> (L < L' \<longleftrightarrow> 0 < spec_sumsq ex_W1 + spec_sumsq ex_W2))"
    by blast
  then have "\<exists>L L'. loss_of (two_layer_net ex_X ex_model (Some [0, 1]) 0) = Some L \<and>
      loss_of (two_layer_net ex_X ex_model (Some [0, 1]) 1) = Some L' \<and> L \<le> L'"
    by (meson zero_less_one)
  then show ?thesis
    using ex_consistent ex_params v by simp
qed

text \<open>
  The network with all weights zero, on one sample with label 0: the loss is \<open>ln 2\<close> at
  \<open>reg = 0\<close> and at \<open>reg = 1\<close>.
\<close>

theorem reg_strict_increase_counterexample:
  "loss_of (two_layer_net zero_X zero_model (Some [0]) 0) = Some (ln 2) \<and>
   loss_of (two_layer_net zero_X zero_model (Some [0]) 1) = Some (ln 2)"
  by (simp add: zero_loss)

text \<open>
  C7, as the code has it. For consistent shapes, a batch of at least one sample, labels in
  \<open>[0, C)\<close> and \<open>reg \<ge> 0\<close>, the loss returned by \<open>two_layer_net\<close> is, in exact real
  arithmetic, a real number and not negative: the probability of each sample's label lies in
  \<open>(0, 1]\<close>, so each term \<open>- ln (P i (y i))\<close> is not negative, and neither is either
  regularization term. The claim asks for no sample; for an empty batch, which meets all it
  lists, line 100 divides \<open>0\<close> by \<open>0\<close> and the loss is \<open>nan\<close>.
\<close>

theorem loss_nonnegative:
  assumes "consistent X W1 b1 W2 b2" "params model W1 b1 W2 b2"
    "valid_labels (nrows X) (ncols W2) y" "0 < nrows X" "0 \<le> reg"
  shows "\<exists>hidden scores P L grads.
     hidden_layer X W1 b1 = Inr hidden \<and> output_layer hidden W2 b2 = Inr scores \<and>
     softmax_probs scores = Inr P \<and>
     (\<forall>i<nrows X. 0 < entry P i (nat (y ! i)) \<and> entry P i (nat (y ! i)) \<le> 1 \<and>
        0 \<le> - ln (entry P i (nat (y ! i)))) \<and>
     0 \<le> 0.5 * reg * (\<Sum>d<nrows W1. \<Sum>h<ncols W1. (entry W1 d h)\<^sup>2) \<and>
     0 \<le> 0.5 * reg * (\<Sum>h<nrows W2. \<Sum>c<ncols W2. (entry W2 h c)\<^sup>2) \<and>
     two_layer_net X model (Some y) reg = Inr (LossGrads (Some L) grads) \<and> 0 \<le> L"
proof -
  let ?N = "nrows X" and ?C = "ncols W2" and ?H = "ncols W1"
  let ?s = "spec_scores X W1 b1 W2 b2"
  let ?P = "spec_probs ?C ?s"
  let ?Mh = "mk_matrix ?N ?H (spec_hidden X W1 b1)" and ?Ms = "mk_matrix ?N ?C ?s"
  let ?MP = "mk_matrix ?N ?C ?P"
  let ?L = "spec_data_loss ?N ?C ?P y + 0.5 * reg * spec_sumsq W1 + 0.5 * reg * spec_sumsq W2"
  have sh: "nrows W1 = ncols X" "length b1 = ncols W1" "nrows W2 = ncols W1"
    "length b2 = ncols W2"
    using assms(1) by (simp_all add: consistent_def)
  have len: "length y = ?N"
    using assms(3) by (simp add: valid_labels_def)
  have inb: "list_all (in_bounds ?C) y"
    by (rule valid_labels_in_bounds [OF assms(3)])
  note lab = valid_labels_norm_index [OF assms(3)]
  have 1: "hidden_layer X W1 b1 = Inr ?Mh"
    using sh by (simp add: hidden_layer_consistent)
  have 2: "output_layer ?Mh W2 b2 = Inr ?Ms"
    using sh by (simp add: output_layer_consistent)
  have 3: "softmax_probs ?Ms = Inr ?MP"
    by (rule softmax_probs_mk)
  have 4: "\<forall>i<?N. 0 < entry ?MP i (nat (y ! i)) \<and> entry ?MP i (nat (y ! i)) \<le> 1 \<and>
      0 \<le> - ln (entry ?MP i (nat (y ! i)))"
    using lab by (simp add: spec_probs_pos spec_probs_le_1)
  have 5: "0 \<le> 0.5 * reg * (\<Sum>d<nrows W1. \<Sum>h<ncols W1. (entry W1 d h)\<^sup>2)"
    "0 \<le> 0.5 * reg * (\<Sum>h<nrows W2. \<Sum>c<ncols W2. (entry W2 h c)\<^sup>2)"
    using assms(5) by (simp_all add: sum_nonneg)
  have 6: "two_layer_net X model (Some y) reg =
      Inr (LossGrads (Some ?L)
        (spec_grads X W1 W2 (spec_hidden X W1 b1) (spec_dscores ?N ?C ?P y) reg))"
    using inb assms(4)
    by (simp add: two_layer_net_params [OF assms(2)] two_layer_net_arrays_train [OF assms(1) len])
  have "0 \<le> spec_data_loss ?N ?C ?P y"
    using lab by (intro spec_data_loss_nonneg) simp
  then have 7: "0 \<le> ?L"
    using 5 by (simp add: spec_sumsq_def)
  from 1 2 3 4 5 6 7 show ?thesis
    by blast
qed

theorem loss_nonnegative_witness:
  "consistent zero_X zero_W1 [0] zero_W2 [0, 0] \<and> params zero_model zero_W1 [0] zero_W2 [0, 0] \<and>
   valid_labels 1 2 [0] \<and> (0::nat) < 1 \<and> (0::real) \<le> 2 \<and>
   (\<exists>L grads. two_layer_net zero_X zero_model (Some [0]) 2 = Inr (LossGrads (Some L) grads) \<and>
      0 \<le> L)"
proof -
  have v: "valid_labels (nrows zero_X) (ncols zero_W2) [0]"
    by (simp add: valid_labels_def)
  have n: "0 < nrows zero_X" and r: "(0::real) \<le> 2"
    by simp_all
  from loss_nonnegative [OF zero_consistent zero_params v n r]
  obtain L grads where
    "two_layer_net zero_X zero_model (Some [0]) 2 = Inr (LossGrads (Some L) grads)" "0 \<le> L"
    by blast
  then show ?thesis
    using zero_consistent zero_params v by auto
qed

text \<open>
  The empty batch of shape \<open>(0, 2)\<close> with the first example's parameters, no labels and
  \<open>reg = 0\<close>: the call returns, with gradients that are all zero, the loss \<open>nan\<close>.
\<close>

theorem empty_batch_loss_counterexample:
  "consistent empty_X ex_W1 ex_b1 ex_W2 ex_b2 \<and> params ex_model ex_W1 ex_b1 ex_W2 ex_b2 \<and>
   valid_labels (nrows empty_X) (ncols ex_W2) [] \<and> (0::real) \<le> 0 \<and>
   two_layer_net empty_X ex_model (Some []) 0 =
     Inr (LossGrads None
       (Map.empty(
          ''W1'' \<mapsto> Mat \<lparr>nrows = 2, ncols = 3, rows = [[0, 0, 0], [0, 0, 0]]\<rparr>,
          ''b1'' \<mapsto> Vec [0, 0, 0],
          ''W2'' \<mapsto> Mat \<lparr>nrows = 3, ncols = 2, rows = [[0, 0], [0, 0], [0, 0]]\<rparr>,
          ''b2'' \<mapsto> Vec [0, 0]))) \<and>
   loss_of (two_layer_net empty_X ex_model (Some []) 0) = None"
proof -
  have len: "length ([] :: int list) = nrows empty_X"
    by simp
  have u2: "[0..<2] = [0, Suc 0]" and u3: "[0..<3] = [0, Suc 0, Suc (Suc 0)]"
    by (simp_all add: upt_rec)
  have run: "two_layer_net empty_X ex_model (Some []) 0 =
     Inr (LossGrads None
       (Map.empty(
          ''W1'' \<mapsto> Mat \<lparr>nrows = 2, ncols = 3, rows = [[0, 0, 0], [0, 0, 0]]\<rparr>,
          ''b1'' \<mapsto> Vec [0, 0, 0],
          ''W2'' \<mapsto> Mat \<lparr>nrows = 3, ncols = 2, rows = [[0, 0], [0, 0], [0, 0]]\<rparr>,
          ''b2'' \<mapsto> Vec [0, 0])))"
    by (simp add: two_layer_net_params [OF ex_params]
        two_layer_net_arrays_train [OF empty_consistent len] spec_grads_def mk_matrix_def u2 u3)
  then show ?thesis
    using empty_consistent ex_params by (simp add: valid_labels_def loss_of_def)
qed

text \<open>
  C8, as the code has it. In training mode, with consistent shapes and one label for each
  sample, the labels being a signed or an unsigned integer array that numpy casts to its
  index type (\<open>as_intp\<close>: an unsigned label of \<open>2\<^sup>6\<^sup>3\<close> or more wraps to a negative one, a
  signed label is unchanged), \<open>two_layer_net\<close> fails with \<open>IndexError\<close> exactly when some label,
  so cast, lies outside \<open>[-C, C)\<close>. A label in \<open>[-C, 0)\<close> is accepted: numpy counts it from the
  last class, and the call returns what it returns for the label \<open>C + y[i]\<close>. The claim's
  "including negative label values" fails at the label \<open>-1\<close>.
\<close>

theorem label_out_of_range_fails:
  assumes "consistent X W1 b1 W2 b2" "params model W1 b1 W2 b2" "length y = nrows X"
    "label_array y"
  shows "(two_layer_net X model (Some (map as_intp y)) reg = Inl IndexError \<longleftrightarrow>
            (\<exists>l\<in>set y. as_intp l < - int (ncols W2) \<or> int (ncols W2) \<le> as_intp l)) \<and>
         ((\<forall>l\<in>set y. - int (ncols W2) \<le> as_intp l \<and> as_intp l < int (ncols W2)) \<longrightarrow>
            (\<exists>loss grads.
               two_layer_net X model (Some (map as_intp y)) reg = Inr (LossGrads loss grads)) \<and>
            two_layer_net X model (Some (map as_intp y)) reg =
              two_layer_net X model (Some (map (\<lambda>l. wrap_label (ncols W2) (as_intp l)) y)) reg) \<and>
         (list_all (\<lambda>l. - (2 ^ 63) \<le> l \<and> l < 2 ^ 63) y \<longrightarrow> map as_intp y = y)"
proof -
  let ?C = "ncols W2" and ?N = "nrows X"
  let ?P = "spec_probs ?C (spec_scores X W1 b1 W2 b2)"
  let ?z = "map as_intp y"
  let ?y' = "map (\<lambda>l. wrap_label ?C (as_intp l)) y"
  have lz: "length ?z = ?N"
    using assms(3) by simp
  have out: "(\<exists>l\<in>set y. as_intp l < - int ?C \<or> int ?C \<le> as_intp l) \<longleftrightarrow>
      \<not> list_all (in_bounds ?C) ?z"
  proof -
    have "(l < - int ?C \<or> int ?C \<le> l) \<longleftrightarrow> \<not> in_bounds ?C l" for l
      by (auto simp: in_bounds_def)
    then show ?thesis
      by (simp add: list_all_iff)
  qed
  note pm = two_layer_net_params [OF assms(2)] and tr = two_layer_net_arrays_train [OF assms(1)]
  have 1: "two_layer_net X model (Some ?z) reg = Inl IndexError \<longleftrightarrow>
      (\<exists>l\<in>set y. as_intp l < - int ?C \<or> int ?C \<le> as_intp l)"
    unfolding out by (simp add: pm tr [OF lz])
  have 2: "(\<exists>loss grads. two_layer_net X model (Some ?z) reg = Inr (LossGrads loss grads)) \<and>
      two_layer_net X model (Some ?z) reg = two_layer_net X model (Some ?y') reg"
    if rng: "\<forall>l\<in>set y. - int ?C \<le> as_intp l \<and> as_intp l < int ?C"
  proof -
    have ly: "length ?y' = ?N"
      using assms(3) by simp
    have inb: "list_all (in_bounds ?C) ?z" "list_all (in_bounds ?C) ?y'"
      using rng by (auto simp: list_all_iff in_bounds_def wrap_label_def)
    have n: "norm_index ?C (?y' ! i) = norm_index ?C (?z ! i)" if "i < ?N" for i
    proof -
      have "- int ?C \<le> as_intp (y ! i)"
        using that assms(3) rng by simp
      then show ?thesis
        using that assms(3) by (simp add: norm_index_def wrap_label_def)
    qed
    have dl: "spec_data_loss ?N ?C ?P ?y' = spec_data_loss ?N ?C ?P ?z"
      using n by (simp add: spec_data_loss_def)
    have g: "spec_grads X W1 W2 (spec_hidden X W1 b1) (spec_dscores ?N ?C ?P ?y') reg =
        spec_grads X W1 W2 (spec_hidden X W1 b1) (spec_dscores ?N ?C ?P ?z) reg"
      using n by (intro spec_grads_cong) (simp add: spec_dscores_def)
    show ?thesis
      using inb by (simp add: pm tr [OF lz] tr [OF ly] dl g)
  qed
  have 3: "map as_intp y = y" if "list_all (\<lambda>l. - (2 ^ 63) \<le> l \<and> l < 2 ^ 63) y"
    using that by (induction y) (simp_all add: as_intp_def)
  from 1 2 3 show ?thesis by blast
qed

theorem label_out_of_range_fails_witness:
  "consistent ex_X ex_W1 ex_b1 ex_W2 ex_b2 \<and> params ex_model ex_W1 ex_b1 ex_W2 ex_b2 \<and>
   length [0, 2 :: int] = nrows ex_X \<and>
   label_array [0, 2] \<and> label_array [- 1, - 3] \<and> label_array [- 1, - 2] \<and>
   label_array [18446744073709551615, 18446744073709551614] \<and>
   two_layer_net ex_X ex_model (Some [0, 2]) 0 = Inl IndexError \<and>
   two_layer_net ex_X ex_model (Some [- 1, - 3]) 0 = Inl IndexError \<and>
   two_layer_net ex_X ex_model (Some [- 1, - 2]) 0 = two_layer_net ex_X ex_model (Some [1, 0]) 0 \<and>
   map as_intp [18446744073709551615, 18446744073709551614] = [- 1, - 2] \<and>
   two_layer_net ex_X ex_model
       (Some (map as_intp [18446744073709551615, 18446744073709551614])) 0 =
     two_layer_net ex_X ex_model (Some [1, 0]) 0"
proof -
  have l: "length [0, 2 :: int] = nrows ex_X" "length [- 1, - 3 :: int] = nrows ex_X"
    "length [- 1, - 2 :: int] = nrows ex_X"
    "length [18446744073709551615, 18446744073709551614 :: int] = nrows ex_X"
    by simp_all
  have a: "label_array [0, 2]" "label_array [- 1, - 3]" "label_array [- 1, - 2]"
    "label_array [18446744073709551615, 18446744073709551614]"
    by (simp_all add: label_array_def)
  have c: "map as_intp [0, 2] = [0, 2]" "map as_intp [- 1, - 3] = [- 1, - 3]"
    "map as_intp [- 1, - 2] = [- 1, - 2]"
    "map as_intp [18446744073709551615, 18446744073709551614] = [- 1, - 2]"
    by (simp_all add: as_intp_def)
  have "two_layer_net ex_X ex_model (Some [0, 2]) 0 = Inl IndexError"
    using label_out_of_range_fails [OF ex_consistent ex_params l(1) a(1), of 0]
    by (simp add: as_intp_def)
  moreover have "two_layer_net ex_X ex_model (Some [- 1, - 3]) 0 = Inl IndexError"
    using label_out_of_range_fails [OF ex_consistent ex_params l(2) a(2), of 0]
    by (simp add: as_intp_def)
  moreover have "two_layer_net ex_X ex_model (Some [- 1, - 2]) 0 =
      two_layer_net ex_X ex_model (Some [1, 0]) 0"
    using label_out_of_range_fails [OF ex_consistent ex_params l(3) a(3), of 0]
    by (simp add: wrap_label_def as_intp_def)
  moreover have "two_layer_net ex_X ex_model
       (Some (map as_intp [18446744073709551615, 18446744073709551614])) 0 =
     two_layer_net ex_X ex_model (Some [1, 0]) 0"
    using label_out_of_range_fails [OF ex_consistent ex_params l(4) a(4), of 0]
    by (simp add: wrap_label_def as_intp_def)
  ultimately show ?thesis
    using ex_consistent ex_params a c(4) by simp
qed

text \<open>
  Two classes and the label \<open>-1\<close>, which is not in \<open>[0, 2)\<close>: the call returns the loss
  \<open>ln 2\<close>.
\<close>

theorem negative_label_counterexample:
  "\<not> (0 \<le> (- 1 :: int)) \<and>
   loss_of (two_layer_net zero_X zero_model (Some [- 1]) 0) = Some (ln 2)"
  by (simp add: zero_loss)

text \<open>
  C9. Whatever \<open>two_layer_net\<close> is called with, and whether it returns or raises, every array
  and every dictionary that existed before the call is unchanged after it: the parameter
  dictionary still holds the same four references, and \<open>W1\<close>, \<open>b1\<close>, \<open>W2\<close>, \<open>b2\<close> (and \<open>X\<close>) the
  same contents. A call that returns scores was made without labels and returns a new array. A
  call that returns a loss was made with labels; its gradient dictionary is a new dictionary
  with exactly the four keys, and the four gradient arrays are new objects: their addresses are
  those of no array that existed before the call, so none is a parameter array.
\<close>

theorem parameters_never_mutated:
  assumes "two_layer_net_s X model y reg h = (r, h')"
  shows "(\<forall>a<length (arrays h). arrays h' ! a = arrays h ! a) \<and>
    (\<forall>d<length (dicts h). dicts h' ! d = dicts h ! d) \<and>
    (\<forall>k a. model < length (dicts h) \<and> (dicts h ! model) k = Some a \<and> a < length (arrays h) \<longrightarrow>
       (dicts h' ! model) k = Some a \<and> arrays h' ! a = arrays h ! a) \<and>
    (\<forall>s. r = Inr (ScoresRef s) \<longrightarrow> y = None \<and> length (arrays h) \<le> s) \<and>
    (\<forall>loss g. r = Inr (LossGradsRef loss g) \<longrightarrow>
       y \<noteq> None \<and> length (dicts h) \<le> g \<and>
       (\<exists>dW1 db1 dW2 db2.
          dicts h' ! g =
            Map.empty(''W1'' \<mapsto> dW1, ''b1'' \<mapsto> db1, ''W2'' \<mapsto> dW2, ''b2'' \<mapsto> db2) \<and>
          length (arrays h) \<le> dW1 \<and> length (arrays h) \<le> db1 \<and>
          length (arrays h) \<le> dW2 \<and> length (arrays h) \<le> db2))"
proof -
  have e: "ext h h'" and fr: "\<And>v. r = Inr v \<Longrightarrow> fresh_result h v"
    using frameD [OF frame_two_layer_net_s ext_refl assms] by auto
  have 1: "\<forall>a<length (arrays h). arrays h' ! a = arrays h ! a"
    and 2: "\<forall>d<length (dicts h). dicts h' ! d = dicts h ! d"
    using e by (simp_all add: ext_def prefix_nth)
  have 3: "\<forall>k a. model < length (dicts h) \<and> (dicts h ! model) k = Some a \<and>
      a < length (arrays h) \<longrightarrow> (dicts h' ! model) k = Some a \<and> arrays h' ! a = arrays h ! a"
    using 1 2 by simp
  have 4: "y = None \<and> length (arrays h) \<le> s" if "r = Inr (ScoresRef s)" for s
  proof -
    from assms that have run: "two_layer_net_s X model y reg h = (Inr (ScoresRef s), h')"
      by simp
    have "y = None"
      using run by (rule two_layer_net_s_train_elim) (auto dest: train_s_dict [OF _ ext_refl])
    with fr [OF that] show ?thesis
      by (simp add: fresh_result_def fresh_arr_def)
  qed
  have 5: "y \<noteq> None \<and> length (dicts h) \<le> g \<and>
      (\<exists>dW1 db1 dW2 db2.
          dicts h' ! g =
            Map.empty(''W1'' \<mapsto> dW1, ''b1'' \<mapsto> db1, ''W2'' \<mapsto> dW2, ''b2'' \<mapsto> db2) \<and>
          length (arrays h) \<le> dW1 \<and> length (arrays h) \<le> db1 \<and>
          length (arrays h) \<le> dW2 \<and> length (arrays h) \<le> db2)"
    if "r = Inr (LossGradsRef loss g)" for loss g
  proof -
    from assms that have run: "two_layer_net_s X model y reg h = (Inr (LossGradsRef loss g), h')"
      by simp
    show ?thesis
      using run
    proof (rule two_layer_net_s_train_elim)
      fix s assume "LossGradsRef loss g = ScoresRef s"
      then show ?thesis by simp
    next
      fix W1 W2 hidden scores y' h1
      assume y: "y = Some y'" and e1: "ext h h1" and
        t: "train_s X W1 W2 hidden scores y' reg h1 = (Inr (LossGradsRef loss g), h')"
      from train_s_dict [OF t e1] y show ?thesis
        by (auto simp: fresh_dict_def fresh_arr_def)
    qed
  qed
  from 1 2 3 4 5 show ?thesis
    by blast
qed

theorem parameters_never_mutated_witness:
  "arrays (snd (two_layer_net_s 0 0 (Some [0, 1]) (1 / 10) ex_store)) ! 1 = Mat ex_W1 \<and>
   arrays (snd (two_layer_net_s 0 0 (Some [0, 1]) (1 / 10) ex_store)) ! 2 = Vec ex_b1 \<and>
   arrays (snd (two_layer_net_s 0 0 (Some [0, 1]) (1 / 10) ex_store)) ! 3 = Mat ex_W2 \<and>
   arrays (snd (two_layer_net_s 0 0 (Some [0, 1]) (1 / 10) ex_store)) ! 4 = Vec ex_b2 \<and>
   dicts (snd (two_layer_net_s 0 0 (Some [0, 1]) (1 / 10) ex_store)) ! 0 =
     Map.empty(''W1'' \<mapsto> 1, ''b1'' \<mapsto> 2, ''W2'' \<mapsto> 3, ''b2'' \<mapsto> 4) \<and>
   (\<exists>loss g dW1 db1 dW2 db2.
      fst (two_layer_net_s 0 0 (Some [0, 1]) (1 / 10) ex_store) = Inr (LossGradsRef loss g) \<and>
      1 \<le> g \<and>
      dicts (snd (two_layer_net_s 0 0 (Some [0, 1]) (1 / 10) ex_store)) ! g =
        Map.empty(''W1'' \<mapsto> dW1, ''b1'' \<mapsto> db1, ''W2'' \<mapsto> dW2, ''b2'' \<mapsto> db2) \<and>
      5 \<le> dW1 \<and> 5 \<le> db1 \<and> 5 \<le> dW2 \<and> 5 \<le> db2)"
proof -
  let ?run = "two_layer_net_s 0 0 (Some [0, 1]) (1 / 10) ex_store"
  have "?run = (fst ?run, snd ?run)"
    by simp
  note P = parameters_never_mutated [OF this]
  from P have old: "\<forall>a<length (arrays ex_store). arrays (snd ?run) ! a = arrays ex_store ! a"
    "\<forall>d<length (dicts ex_store). dicts (snd ?run) ! d = dicts ex_store ! d"
    by blast+
  from ex_store_run obtain loss g where r: "fst ?run = Inr (LossGradsRef loss g)"
    by blast
  have len: "length (arrays ex_store) = 5" "length (dicts ex_store) = 1"
    by (simp_all add: ex_store_def)
  from P r obtain dW1 db1 dW2 db2 where
    "length (dicts ex_store) \<le> g"
    "dicts (snd ?run) ! g =
      Map.empty(''W1'' \<mapsto> dW1, ''b1'' \<mapsto> db1, ''W2'' \<mapsto> dW2, ''b2'' \<mapsto> db2)"
    "length (arrays ex_store) \<le> dW1" "length (arrays ex_store) \<le> db1"
    "length (arrays ex_store) \<le> dW2" "length (arrays ex_store) \<le> db2"
    by blast
  with r have new: "\<exists>loss g dW1 db1 dW2 db2.
      fst ?run = Inr (LossGradsRef loss g) \<and> 1 \<le> g \<and>
      dicts (snd ?run) ! g =
        Map.empty(''W1'' \<mapsto> dW1, ''b1'' \<mapsto> db1, ''W2'' \<mapsto> dW2, ''b2'' \<mapsto> db2) \<and>
      5 \<le> dW1 \<and> 5 \<le> db1 \<and> 5 \<le> dW2 \<and> 5 \<le> db2"
    unfolding len by blast
  have "arrays (snd ?run) ! 1 = Mat ex_W1" "arrays (snd ?run) ! 2 = Vec ex_b1"
    "arrays (snd ?run) ! 3 = Mat ex_W2" "arrays (snd ?run) ! 4 = Vec ex_b2"
    "dicts (snd ?run) ! 0 = Map.empty(''W1'' \<mapsto> 1, ''b1'' \<mapsto> 2, ''W2'' \<mapsto> 3, ''b2'' \<mapsto> 4)"
    using old by (simp_all add: ex_store_def)
  with new show ?thesis
    by blast
qed

text \<open>
  C10. For consistent shapes and labels in \<open>[0, C)\<close>, the entries of the returned gradient
  \<open>grads['b2']\<close> sum to zero: each row of the class probabilities sums to 1 and has 1 subtracted
  at exactly one column, so each row of \<open>dscores\<close> sums to zero, and \<open>db2\<close> holds the column sums
  of \<open>dscores\<close>.
\<close>

theorem db2_sums_to_zero:
  assumes "consistent X W1 b1 W2 b2" "params model W1 b1 W2 b2"
    "valid_labels (nrows X) (ncols W2) y"
  shows "\<exists>hidden scores P dscores loss grads db2.
     hidden_layer X W1 b1 = Inr hidden \<and> output_layer hidden W2 b2 = Inr scores \<and>
     softmax_probs scores = Inr P \<and> dscores_of P (nrows X) y = Inr dscores \<and>
     (\<forall>i<nrows X. (\<Sum>c<ncols W2. entry P i c) = 1) \<and>
     (\<forall>i<nrows X. (\<Sum>c<ncols W2. entry dscores i c) = 0) \<and>
     two_layer_net X model (Some y) reg = Inr (LossGrads loss grads) \<and>
     grads ''b2'' = Some (Vec db2) \<and> length db2 = ncols W2 \<and> sum_list db2 = 0"
proof -
  let ?N = "nrows X" and ?C = "ncols W2" and ?H = "ncols W1"
  let ?s = "spec_scores X W1 b1 W2 b2"
  let ?P = "spec_probs ?C ?s"
  let ?ds = "spec_dscores ?N ?C ?P y"
  let ?Mh = "mk_matrix ?N ?H (spec_hidden X W1 b1)" and ?Ms = "mk_matrix ?N ?C ?s"
  let ?MP = "mk_matrix ?N ?C ?P" and ?Md = "mk_matrix ?N ?C ?ds"
  let ?db2 = "map (\<lambda>c. \<Sum>i<?N. ?ds i c) [0..<?C]"
  have sh: "nrows W1 = ncols X" "length b1 = ncols W1" "nrows W2 = ncols W1"
    "length b2 = ncols W2"
    using assms(1) by (simp_all add: consistent_def)
  have len: "length y = ?N"
    using assms(3) by (simp add: valid_labels_def)
  have inb: "list_all (in_bounds ?C) y"
    by (rule valid_labels_in_bounds [OF assms(3)])
  note lab = valid_labels_norm_index [OF assms(3)]
  have 1: "hidden_layer X W1 b1 = Inr ?Mh"
    using sh by (simp add: hidden_layer_consistent)
  have 2: "output_layer ?Mh W2 b2 = Inr ?Ms"
    using sh by (simp add: output_layer_consistent)
  have 3: "softmax_probs ?Ms = Inr ?MP"
    by (rule softmax_probs_mk)
  have 4: "dscores_of ?MP ?N y = Inr ?Md"
    using inb len by (auto simp: dscores_of_range spec_dscores_def intro!: mk_matrix_cong)
  have rowP: "(\<Sum>c<?C. ?P i c) = 1" if "i < ?N" for i
  proof -
    have "0 < ?C" using lab [OF that] by simp
    then show ?thesis by (rule spec_probs_sum)
  qed
  have row: "(\<Sum>c<?C. ?ds i c) = 0" if "i < ?N" for i
    using lab [OF that] by (intro spec_dscores_row_sum) simp
  have 5: "\<forall>i<?N. (\<Sum>c<?C. entry ?MP i c) = 1"
    using rowP by simp
  have 6: "\<forall>i<?N. (\<Sum>c<?C. entry ?Md i c) = 0"
    using row by simp
  obtain loss where 7: "two_layer_net X model (Some y) reg =
      Inr (LossGrads loss (spec_grads X W1 W2 (spec_hidden X W1 b1) ?ds reg))"
    using inb
    by (simp add: two_layer_net_params [OF assms(2)] two_layer_net_arrays_train [OF assms(1) len])
  have 8: "spec_grads X W1 W2 (spec_hidden X W1 b1) ?ds reg ''b2'' = Some (Vec ?db2)"
    by (simp add: spec_grads_def)
  have "sum_list ?db2 = (\<Sum>c<?C. \<Sum>i<?N. ?ds i c)"
    by (rule sum_list_map_upt)
  also have "\<dots> = (\<Sum>i<?N. \<Sum>c<?C. ?ds i c)"
    by (rule sum.swap)
  also have "\<dots> = 0"
    using row by simp
  finally have 9: "sum_list ?db2 = 0" .
  have 10: "length ?db2 = ?C"
    by simp
  from 1 2 3 4 5 6 7 8 9 10 show ?thesis
    by blast
qed

theorem db2_sums_to_zero_witness:
  "consistent ex_X ex_W1 ex_b1 ex_W2 ex_b2 \<and> params ex_model ex_W1 ex_b1 ex_W2 ex_b2 \<and>
   valid_labels 2 2 [0, 1] \<and>
   (\<exists>loss grads db2.
      two_layer_net ex_X ex_model (Some [0, 1]) (1 / 10) = Inr (LossGrads loss grads) \<and>
      grads ''b2'' = Some (Vec db2) \<and> length db2 = 2 \<and> sum_list db2 = 0)"
proof -
  have v: "valid_labels (nrows ex_X) (ncols ex_W2) [0, 1]"
    by (simp add: valid_labels_def)
  from db2_sums_to_zero [OF ex_consistent ex_params v, of "1 / 10"]
  obtain loss grads db2 where
    "two_layer_net ex_X ex_model (Some [0, 1]) (1 / 10) = Inr (LossGrads loss grads)"
    "grads ''b2'' = Some (Vec db2)" "length db2 = ncols ex_W2" "sum_list db2 = 0"
    by blast
  then show ?thesis
    using ex_consistent ex_params v by auto
qed

end
